theory Spec2Isabelle
  imports Main "HOL-Library.Sublist"
begin

section \<open>The tool registry (config/tools.ts)\<close>

text \<open>
  \<^verbatim>\<open>TOOL_CONFIG\<close> is an object literal; its own keys are enumerated in insertion
  order by \<^verbatim>\<open>Object.entries\<close> and \<^verbatim>\<open>Object.keys\<close>, so it is an association
  list here. Timeouts are milliseconds.
\<close>

record tool_config =
  weight :: nat
  timeout :: nat
  minTier :: string
  description :: string

definition TOOL_CONFIG :: "(string \<times> tool_config) list" where
  "TOOL_CONFIG =
    [(''dependency.explain'',
        \<lparr>weight = 1, timeout = 15000, minTier = ''free'',
         description = ''Get comprehensive explanation of a package including health, risk, and recommendations''\<rparr>),
     (''dependency.health'',
        \<lparr>weight = 1, timeout = 5000, minTier = ''free'',
         description = ''Quick health check for a package (deprecated, vulnerable, unmaintained)''\<rparr>),
     (''dependency.alternatives'',
        \<lparr>weight = 1, timeout = 10000, minTier = ''free'',
         description = ''Find alternative packages with adoption stats and migration effort''\<rparr>),
     (''dependency.trends'',
        \<lparr>weight = 1, timeout = 10000, minTier = ''free'',
         description = ''Get trend data for a package (rising, stable, declining)''\<rparr>),
     (''dependency.safe-upgrade'',
        \<lparr>weight = 2, timeout = 15000, minTier = ''free'',
         description = ''Evaluate if upgrading a package is safe with breaking change analysis''\<rparr>),
     (''stack.recommend'',
        \<lparr>weight = 2, timeout = 20000, minTier = ''free'',
         description = ''Get stack recommendations based on use cases and requirements''\<rparr>),
     (''stack.validate'',
        \<lparr>weight = 1, timeout = 10000, minTier = ''free'',
         description = ''Validate a stack for conflicts, redundancies, and issues''\<rparr>),
     (''stack.defaults'',
        \<lparr>weight = 1, timeout = 5000, minTier = ''free'',
         description = ''Get canonical/default packages for a framework''\<rparr>),
     (''migration.plan'',
        \<lparr>weight = 3, timeout = 30000, minTier = ''free'',
         description = ''Generate a detailed migration plan with action graph''\<rparr>),
     (''architecture.evaluate'',
        \<lparr>weight = 5, timeout = 45000, minTier = ''free'',
         description = ''Comprehensive architecture evaluation with quality grades''\<rparr>),
     (''signals.evaluate'',
        \<lparr>weight = 1, timeout = 10000, minTier = ''free'',
         description = ''Get reward signal for add/remove/upgrade/replace actions''\<rparr>)]"

definition HIDDEN_TOOLS :: "string list" where
  "HIDDEN_TOOLS = [''migration.plan'']"

text \<open>\<^verbatim>\<open>Object.keys(TOOL_CONFIG)\<close> and the property read \<^verbatim>\<open>TOOL_CONFIG[tool]\<close>.\<close>

definition tool_names :: "string list" where
  "tool_names = map fst TOOL_CONFIG"

definition tool_lookup :: "string \<Rightarrow> tool_config option" where
  "tool_lookup name = map_of TOOL_CONFIG name"

section \<open>JavaScript values and the runtime operations the code relies on\<close>

text \<open>
  A value decoded from JSON (a tool result, an error body, the call arguments), plus
  \<^verbatim>\<open>undefined\<close>, which a missing property reads as. An object is the list of its own
  properties in enumeration order, with distinct keys. Numbers are IEEE doubles in the
  runtime; their type is a parameter, and the three number operations the code reaches
  (\<^verbatim>\<open>String(n)\<close>, the number text of \<^verbatim>\<open>JSON.stringify\<close>, and truthiness) are
  passed in a \<open>runtime\<close> record. Strings are byte strings.
\<close>

datatype 'n jsval =
    JUndefined
  | JNull
  | JBool bool
  | JNum 'n
  | JStr string
  | JArr "'n jsval list"
  | JObj "(string \<times> 'n jsval) list"

record 'n runtime =
  numToString :: "'n \<Rightarrow> string"
  numToJSON :: "'n \<Rightarrow> string"
  numFalsy :: "'n \<Rightarrow> bool"

text \<open>A thrown value: an error object with its \<^verbatim>\<open>name\<close> and \<^verbatim>\<open>message\<close>.\<close>

datatype js_error = JsError (err_name: string) (message: string)

definition new_Error :: "string \<Rightarrow> js_error" where
  "new_Error msg = JsError ''Error'' msg"

definition new_TypeError :: "string \<Rightarrow> js_error" where
  "new_TypeError msg = JsError ''TypeError'' msg"

text \<open>
  Property read \<^verbatim>\<open>v.k\<close>. Reading a property of \<^verbatim>\<open>null\<close> or \<^verbatim>\<open>undefined\<close>
  throws a TypeError (the message is V8's). The code only reads the names \<^verbatim>\<open>_agi\<close>,
  \<^verbatim>\<open>error\<close>, \<^verbatim>\<open>message\<close>, \<^verbatim>\<open>success\<close> and \<^verbatim>\<open>result\<close> this way, none of
  which a string, number, boolean or array has, so those read as \<^verbatim>\<open>undefined\<close>.
\<close>

fun js_get :: "'n jsval \<Rightarrow> string \<Rightarrow> js_error + 'n jsval" where
  "js_get JUndefined k =
     Inl (new_TypeError (''Cannot read properties of undefined (reading '' @ [CHR 0x27] @ k @ [CHR 0x27] @ '')''))"
| "js_get JNull k =
     Inl (new_TypeError (''Cannot read properties of null (reading '' @ [CHR 0x27] @ k @ [CHR 0x27] @ '')''))"
| "js_get (JObj kvs) k = Inr (case map_of kvs k of None \<Rightarrow> JUndefined | Some v \<Rightarrow> v)"
| "js_get (JBool b) k = Inr JUndefined"
| "js_get (JNum n) k = Inr JUndefined"
| "js_get (JStr s) k = Inr JUndefined"
| "js_get (JArr xs) k = Inr JUndefined"

text \<open>Optional chaining \<^verbatim>\<open>v?.k\<close>: \<^verbatim>\<open>undefined\<close> when \<open>v\<close> is nullish.\<close>

fun js_get_opt :: "'n jsval \<Rightarrow> string \<Rightarrow> 'n jsval" where
  "js_get_opt JUndefined k = JUndefined"
| "js_get_opt JNull k = JUndefined"
| "js_get_opt (JObj kvs) k = (case map_of kvs k of None \<Rightarrow> JUndefined | Some v \<Rightarrow> v)"
| "js_get_opt (JBool b) k = JUndefined"
| "js_get_opt (JNum n) k = JUndefined"
| "js_get_opt (JStr s) k = JUndefined"
| "js_get_opt (JArr xs) k = JUndefined"

text \<open>ToBoolean, as applied by \<^verbatim>\<open>!\<close>, \<^verbatim>\<open>||\<close>, \<^verbatim>\<open>&&\<close> and \<^verbatim>\<open>if\<close>.\<close>

fun truthy :: "'n runtime \<Rightarrow> 'n jsval \<Rightarrow> bool" where
  "truthy rt JUndefined = False"
| "truthy rt JNull = False"
| "truthy rt (JBool b) = b"
| "truthy rt (JNum n) = (\<not> numFalsy rt n)"
| "truthy rt (JStr s) = (s \<noteq> [])"
| "truthy rt (JArr xs) = True"
| "truthy rt (JObj kvs) = True"

text \<open>\<^verbatim>\<open>typeof v === 'object'\<close>: true of \<^verbatim>\<open>null\<close>, arrays and objects.\<close>

fun typeof_object :: "'n jsval \<Rightarrow> bool" where
  "typeof_object JNull = True"
| "typeof_object (JArr xs) = True"
| "typeof_object (JObj kvs) = True"
| "typeof_object JUndefined = False"
| "typeof_object (JBool b) = False"
| "typeof_object (JNum n) = False"
| "typeof_object (JStr s) = False"

text \<open>Joining strings with a separator (the text part of \<^verbatim>\<open>Array.prototype.join\<close>).\<close>

fun join_strs :: "string \<Rightarrow> string list \<Rightarrow> string" where
  "join_strs sep [] = []"
| "join_strs sep [s] = s"
| "join_strs sep (s # t # ts) = s @ sep @ join_strs sep (t # ts)"

text \<open>
  ToString, as applied by template literals and by \<^verbatim>\<open>new Error(x)\<close>. An array renders
  as its elements joined by commas, where \<^verbatim>\<open>null\<close> and \<^verbatim>\<open>undefined\<close> elements
  render empty; a plain object renders as \<^verbatim>\<open>[object Object]\<close>.
\<close>

fun js_toString :: "'n runtime \<Rightarrow> 'n jsval \<Rightarrow> string" where
  "js_toString rt JUndefined = ''undefined''"
| "js_toString rt JNull = ''null''"
| "js_toString rt (JBool b) = (if b then ''true'' else ''false'')"
| "js_toString rt (JNum n) = numToString rt n"
| "js_toString rt (JStr s) = s"
| "js_toString rt (JArr xs) =
     join_strs '',''
       (map (\<lambda>x. case x of JUndefined \<Rightarrow> [] | JNull \<Rightarrow> [] | _ \<Rightarrow> js_toString rt x) xs)"
| "js_toString rt (JObj kvs) = ''[object Object]''"

text \<open>\<^verbatim>\<open>xs.join(sep)\<close> on an array.\<close>

definition js_join :: "'n runtime \<Rightarrow> string \<Rightarrow> 'n jsval list \<Rightarrow> string" where
  "js_join rt sep xs =
     join_strs sep
       (map (\<lambda>x. case x of JUndefined \<Rightarrow> [] | JNull \<Rightarrow> [] | _ \<Rightarrow> js_toString rt x) xs)"

text \<open>Decimal text of a natural number (an array index, an HTTP status, a weight).\<close>

definition dec_digit :: "nat \<Rightarrow> char" where
  "dec_digit n = ''0123456789'' ! (n mod 10)"

fun show_nat :: "nat \<Rightarrow> string" where
  "show_nat n = (if n < 10 then [dec_digit n] else show_nat (n div 10) @ [dec_digit n])"

declare show_nat.simps [simp del]

subsection \<open>\<^verbatim>\<open>JSON.stringify\<close>\<close>

text \<open>
  String quoting escapes the double quote, the backslash and the control characters
  (as \<^verbatim>\<open>\b \t \n \f \r\<close>, the others as \<^verbatim>\<open>\u00xx\<close> in lower-case hex).
\<close>

definition hex_digit :: "nat \<Rightarrow> char" where
  "hex_digit n = ''0123456789abcdef'' ! (n mod 16)"

definition json_escape_char :: "char \<Rightarrow> string" where
  "json_escape_char c =
     (if c = CHR 0x22 then [CHR 0x5C, CHR 0x22]
      else if c = CHR 0x5C then [CHR 0x5C, CHR 0x5C]
      else if c = CHR 0x08 then [CHR 0x5C, CHR ''b'']
      else if c = CHR 0x09 then [CHR 0x5C, CHR ''t'']
      else if c = CHR 0x0A then [CHR 0x5C, CHR ''n'']
      else if c = CHR 0x0C then [CHR 0x5C, CHR ''f'']
      else if c = CHR 0x0D then [CHR 0x5C, CHR ''r'']
      else if (of_char c :: nat) < 32
        then [CHR 0x5C] @ ''u00'' @ [hex_digit (of_char c div 16), hex_digit (of_char c mod 16)]
      else [c])"

definition json_quote :: "string \<Rightarrow> string" where
  "json_quote s = [CHR 0x22] @ concat (map json_escape_char s) @ [CHR 0x22]"

text \<open>
  Serialisation of a value with the indentation unit \<open>gap\<close> (empty for the compact form)
  at the current indentation \<open>ind\<close>. A property whose value is \<^verbatim>\<open>undefined\<close> is left
  out of an object; an \<^verbatim>\<open>undefined\<close> array element is written \<^verbatim>\<open>null\<close>.
\<close>

fun json_ser :: "'n runtime \<Rightarrow> string \<Rightarrow> string \<Rightarrow> 'n jsval \<Rightarrow> string" where
  "json_ser rt gap ind JUndefined = ''null''"
| "json_ser rt gap ind JNull = ''null''"
| "json_ser rt gap ind (JBool b) = (if b then ''true'' else ''false'')"
| "json_ser rt gap ind (JNum n) = numToJSON rt n"
| "json_ser rt gap ind (JStr s) = json_quote s"
| "json_ser rt gap ind (JArr xs) =
     (let items = map (\<lambda>x. json_ser rt gap (ind @ gap) x) xs in
      if items = [] then ''[]''
      else if gap = [] then ''['' @ join_strs '','' items @ '']''
      else ''[\<newline>'' @ (ind @ gap) @ join_strs ('',\<newline>'' @ (ind @ gap)) items
           @ ''\<newline>'' @ ind @ '']'')"
| "json_ser rt gap ind (JObj kvs) =
     (let props = concat (map (\<lambda>(k, v). case v of
                      JUndefined \<Rightarrow> []
                    | _ \<Rightarrow> [json_quote k @ '':'' @ (if gap = [] then [] else '' '')
                            @ json_ser rt gap (ind @ gap) v]) kvs) in
      if props = [] then ''{}''
      else if gap = [] then ''{'' @ join_strs '','' props @ ''}''
      else ''{\<newline>'' @ (ind @ gap) @ join_strs ('',\<newline>'' @ (ind @ gap)) props
           @ ''\<newline>'' @ ind @ ''}'')"

text \<open>
  \<^verbatim>\<open>JSON.stringify(v, null, space)\<close>: \<^verbatim>\<open>undefined\<close> (here \<open>None\<close>) for the value
  \<^verbatim>\<open>undefined\<close>; a template literal then renders it as the text \<^verbatim>\<open>undefined\<close>.
\<close>

fun JSON_stringify :: "'n runtime \<Rightarrow> string \<Rightarrow> 'n jsval \<Rightarrow> string option" where
  "JSON_stringify rt gap JUndefined = None"
| "JSON_stringify rt gap v = Some (json_ser rt gap [] v)"

definition template_opt :: "string option \<Rightarrow> string" where
  "template_opt r = (case r of None \<Rightarrow> ''undefined'' | Some s \<Rightarrow> s)"

text \<open>\<^verbatim>\<open>Object.entries\<close>: an array enumerates its indices as keys.\<close>

fun object_entries :: "'n jsval \<Rightarrow> (string \<times> 'n jsval) list" where
  "object_entries (JObj kvs) = kvs"
| "object_entries (JArr xs) = zip (map show_nat [0..<length xs]) xs"
| "object_entries (JStr s) = zip (map show_nat [0..<length s]) (map (\<lambda>c. JStr [c]) s)"
| "object_entries JUndefined = []"
| "object_entries JNull = []"
| "object_entries (JBool b) = []"
| "object_entries (JNum n) = []"

section \<open>The result formatter (formatter.ts)\<close>

text \<open>
  \<^verbatim>\<open>formatAgi\<close> starts from the heading and appends one line per entry of the guidance
  block: an array joined by \<^verbatim>\<open>', '\<close>, any other object as compact JSON, a scalar as
  its text.
\<close>

definition formatAgi :: "'n runtime \<Rightarrow> 'n jsval \<Rightarrow> string" where
  "formatAgi rt agi =
     foldl (\<lambda>text (key, value).
              case value of
                JArr xs \<Rightarrow> text @ ''- **'' @ key @ ''**: '' @ js_join rt '', '' xs @ ''\<newline>''
              | JObj kvs \<Rightarrow>
                  text @ ''- **'' @ key @ ''**: '' @ template_opt (JSON_stringify rt [] value)
                       @ ''\<newline>''
              | _ \<Rightarrow> text @ ''- **'' @ key @ ''**: '' @ js_toString rt value @ ''\<newline>'')
       ''\<newline>---\<newline>## AGI Guidance\<newline>''
       (object_entries agi)"

text \<open>The tool names that have a \<^verbatim>\<open>case\<close> of their own in the \<^verbatim>\<open>switch\<close>.\<close>

definition bespoke_tools :: "string list" where
  "bespoke_tools =
     [''dependency.explain'', ''dependency.health'', ''stack.recommend'', ''stack.validate'',
      ''migration.plan'', ''architecture.evaluate'', ''signals.evaluate'']"

text \<open>The \<^verbatim>\<open>default\<close> branch of the \<^verbatim>\<open>switch\<close>: the generic rendering.\<close>

definition generic_rendering :: "'n runtime \<Rightarrow> string \<Rightarrow> 'n jsval \<Rightarrow> string" where
  "generic_rendering rt tool result =
     ''# '' @ tool @ '' Result\<newline>\<newline>```json\<newline>''
       @ template_opt (JSON_stringify rt ''  '' result) @ ''\<newline>```''"

text \<open>
  \<^verbatim>\<open>formatResult\<close>. The bodies of the seven bespoke cases read fields of \<open>data\<close> and
  either build a text or throw; they are the parameter \<open>templates\<close> (tool name and data
  to a text or a thrown error), so every statement below holds whatever they do. After the
  \<^verbatim>\<open>switch\<close>, \<^verbatim>\<open>data._agi\<close> is read, which throws when \<open>data\<close> is
  \<^verbatim>\<open>null\<close> or \<^verbatim>\<open>undefined\<close>, and the guidance section is appended when it is a
  truthy object.
\<close>

definition formatResult ::
  "'n runtime \<Rightarrow> (string \<Rightarrow> 'n jsval \<Rightarrow> js_error + string) \<Rightarrow> string \<Rightarrow> 'n jsval
     \<Rightarrow> js_error + string" where
  "formatResult rt templates tool result =
     (let data = result in
      case (if tool \<in> set bespoke_tools then templates tool data
            else Inr (generic_rendering rt tool result)) of
        Inl e \<Rightarrow> Inl e
      | Inr text \<Rightarrow>
          (case js_get data ''_agi'' of
             Inl e \<Rightarrow> Inl e
           | Inr agi \<Rightarrow>
               if truthy rt agi \<and> typeof_object agi then Inr (text @ formatAgi rt agi)
               else Inr text))"

section \<open>The resource catalog (resources.ts)\<close>

text \<open>
  The process environment \<^verbatim>\<open>process.env\<close> is a map from variable names to strings.
  \<^verbatim>\<open>process.env.X || d\<close> is \<open>d\<close> when the variable is absent or empty.
\<close>

type_synonym environment = "string \<rightharpoonup> string"

definition env_or :: "environment \<Rightarrow> string \<Rightarrow> string \<Rightarrow> string" where
  "env_or env var d = (case env var of None \<Rightarrow> d | Some v \<Rightarrow> if v = [] then d else v)"

text \<open>
  The two module-level constants of resources.ts, \<^verbatim>\<open>API_KEY\<close> and \<^verbatim>\<open>API_URL\<close>,
  are evaluated once, when the module is loaded, from the environment of that moment.
\<close>

record resources_module =
  API_KEY :: "string option"
  API_URL :: string

definition load_resources :: "environment \<Rightarrow> resources_module" where
  "load_resources env =
     \<lparr>API_KEY = env ''PATTERNSTACK_API_KEY'',
      API_URL = env_or env ''PATTERNSTACK_API_URL'' ''https://patternstack.ai''\<rparr>"

text \<open>The emoji of the heading is written as its four UTF-8 bytes.\<close>

definition getOverviewDoc :: string where
  "getOverviewDoc =
     ''# '' @ [CHR 0xF0, CHR 0x9F, CHR 0xAA, CHR 0xB8] @ '' PatternStack MCP\<newline>'' @
     ''\<newline>'' @
     ''## Agent-Optimized Semantic Tool Layer\<newline>'' @
     ''\<newline>'' @
     ''PatternStack MCP provides semantic tools designed for AGI reasoning:\<newline>'' @
     ''\<newline>'' @
     ''### Tool Namespaces\<newline>'' @
     ''\<newline>'' @
     ''- **dependency.*** - Package-level intelligence\<newline>'' @
     ''- **stack.*** - Stack generation and validation\<newline>'' @
     ''- **migration.*** - Migration planning with action graphs\<newline>'' @
     ''- **architecture.*** - Architecture evaluation and grading\<newline>'' @
     ''- **signals.*** - Reinforcement learning signals\<newline>'' @
     ''\<newline>'' @
     ''### Key Features\<newline>'' @
     ''\<newline>'' @
     ''1. **AGI-Ready Responses** - Every tool returns an `_agi` block with:\<newline>'' @
     ''   - Confidence scores\<newline>'' @
     ''   - Clear recommendations (proceed/caution/avoid)\<newline>'' @
     ''   - Actionable next steps\<newline>'' @
     ''\<newline>'' @
     ''2. **Usage Limits** - Tools are gated by tier with rate limits and daily usage caps.\<newline>'' @
     ''\<newline>'' @
     ''3. **Safety Middleware** - Built-in protection:\<newline>'' @
     ''   - Tier gating\<newline>'' @
     ''   - Rate limiting\<newline>'' @
     ''   - Input validation\<newline>'' @
     ''   - Prompt injection detection\<newline>'' @
     ''\<newline>'' @
     ''### Tiers\<newline>'' @
     ''\<newline>'' @
     ''Free access is preview-only (summary + single risk). Full depth requires Workspace or Premium.\<newline>'' @
     ''\<newline>'' @
     ''| Tool | Free | Workspace | Premium |\<newline>'' @
     ''|------|------|-----------|---------|\<newline>'' @
     ''| dependency.health | Preview | Yes | Yes |\<newline>'' @
     ''| stack.defaults | - | Yes | Yes |\<newline>'' @
     ''| dependency.explain | Preview | Yes | Yes |\<newline>'' @
     ''| dependency.alternatives | - | Yes | Yes |\<newline>'' @
     ''| dependency.trends | Preview | Yes | Yes |\<newline>'' @
     ''| stack.recommend | - | Yes | Yes |\<newline>'' @
     ''| stack.validate | Preview | Yes | Yes |\<newline>'' @
     ''| migration.plan | - | - | Yes |\<newline>'' @
     ''| dependency.safe-upgrade | - | - | Yes |\<newline>'' @
     ''| architecture.evaluate | - | - | Yes |\<newline>'' @
     ''| signals.evaluate | - | - | Yes |\<newline>'' @
     ''\<newline>'' @
     ''Get your API key at: https://patternstack.ai/dashboard/keys\<newline>''"

text \<open>
  \<^verbatim>\<open>config.timeout / 1000\<close> rendered by a template literal: the integer when the
  division is exact, otherwise the decimal fraction without trailing zeros.
\<close>

definition show_thousandths :: "nat \<Rightarrow> string" where
  "show_thousandths n =
     (let q = n div 1000; r = n mod 1000 in
      if r = 0 then show_nat q
      else if r mod 100 = 0 then show_nat q @ ''.'' @ show_nat (r div 100)
      else if r mod 10 = 0
        then show_nat q @ ''.'' @ show_nat (r div 100) @ show_nat (r div 10 mod 10)
      else show_nat q @ ''.'' @ show_nat (r div 100) @ show_nat (r div 10 mod 10)
             @ show_nat (r mod 10))"

definition getToolsDoc :: string where
  "getToolsDoc =
     foldl (\<lambda>doc (name, config).
              doc @ ''## '' @ name @ ''\<newline>\<newline>''
                  @ description config @ ''\<newline>\<newline>''
                  @ ''- **Complexity Weight**: '' @ show_nat (weight config) @ ''\<newline>''
                  @ ''- **Timeout**: '' @ show_thousandths (timeout config) @ ''s\<newline>''
                  @ ''- **Minimum Tier**: '' @ minTier config @ ''\<newline>\<newline>''
                  @ ''---\<newline>\<newline>'')
       ''# MCP Tool Reference\<newline>\<newline>''
       TOOL_CONFIG"

text \<open>\<^verbatim>\<open>API_KEY ? 'Configured' : 'Not set'\<close>: an absent or empty key is falsy.\<close>

definition key_status :: "string option \<Rightarrow> string" where
  "key_status k = (case k of None \<Rightarrow> ''Not set'' | Some v \<Rightarrow> if v = [] then ''Not set'' else ''Configured'')"

definition config_tail :: string where
  "config_tail =
     ''\<newline>'' @
     ''\<newline>'' @
     ''## Setup\<newline>'' @
     ''\<newline>'' @
     ''1. Get API key from https://patternstack.ai/dashboard/keys\<newline>'' @
     ''2. Set PATTERNSTACK_API_KEY environment variable\<newline>'' @
     ''3. Start the MCP server\<newline>'' @
     ''\<newline>'' @
     ''## Environment Variables\<newline>'' @
     ''\<newline>'' @
     ''- PATTERNSTACK_API_KEY - Your API key (required)\<newline>'' @
     ''- PATTERNSTACK_API_URL - API URL (default: https://patternstack.ai)\<newline>''"

definition getConfigDoc :: "resources_module \<Rightarrow> string" where
  "getConfigDoc m =
     ''# PatternStack Configuration\<newline>\<newline>API Key: '' @ key_status (API_KEY m)
       @ ''\<newline>API URL: '' @ API_URL m @ config_tail"

record resource =
  uri :: string
  res_name :: string
  res_description :: string
  mimeType :: string

definition RESOURCES :: "resource list" where
  "RESOURCES =
     [\<lparr>uri = ''patternstack://overview'', res_name = ''MCP Overview'',
       res_description = ''PatternStack MCP architecture and tool reference'',
       mimeType = ''text/markdown''\<rparr>,
      \<lparr>uri = ''patternstack://tools'', res_name = ''Tool Reference'',
       res_description = ''Detailed reference for all MCP tools'',
       mimeType = ''text/markdown''\<rparr>,
      \<lparr>uri = ''patternstack://config'', res_name = ''Configuration'',
       res_description = ''Current configuration and API key status'',
       mimeType = ''text/plain''\<rparr>]"

definition getResource :: "resources_module \<Rightarrow> string \<Rightarrow> js_error + string" where
  "getResource m u =
     (if u = ''patternstack://overview'' then Inr getOverviewDoc
      else if u = ''patternstack://tools'' then Inr getToolsDoc
      else if u = ''patternstack://config'' then Inr (getConfigDoc m)
      else Inl (new_Error (''Unknown resource: '' @ u)))"

section \<open>The input schemas (config/schemas.ts)\<close>

definition ECOSYSTEM_ENUM :: "'n jsval" where
  "ECOSYSTEM_ENUM =
     JArr [JStr ''npm'', JStr ''pypi'', JStr ''go'', JStr ''crates'', JStr ''rubygems'',
           JStr ''packagist'', JStr ''hex'', JStr ''maven'', JStr ''nuget'', JStr ''pub'', JStr ''swift'']"

definition INPUT_SCHEMAS :: "(string \<times> 'n jsval) list" where
  "INPUT_SCHEMAS =
    [(''dependency.explain'',
        JObj
          [(''type'', JStr ''object''),
           (''properties'', JObj
              [(''package'', JObj
                  [(''type'', JStr ''string''),
                   (''description'', JStr ''Package name to explain'')]),
               (''version'', JObj
                  [(''type'', JStr ''string''),
                   (''description'', JStr ''Version to analyze (optional)'')]),
               (''framework'', JObj
                  [(''type'', JStr ''string''),
                   (''description'', JStr ''Framework context (e.g., next, django)'')]),
               (''ecosystem'', JObj [(''type'', JStr ''string''), (''enum'', ECOSYSTEM_ENUM)]),
               (''includeAlternatives'', JObj
                  [(''type'', JStr ''boolean''),
                   (''description'', JStr ''Include alternative packages'')]),
               (''includeMigrations'', JObj
                  [(''type'', JStr ''boolean''),
                   (''description'', JStr ''Include migration information'')])]),
           (''required'', JArr [JStr ''package''])]),
     (''dependency.health'',
        JObj
          [(''type'', JStr ''object''),
           (''properties'', JObj
              [(''package'', JObj
                  [(''type'', JStr ''string''),
                   (''description'', JStr ''Package name to check'')]),
               (''ecosystem'', JObj [(''type'', JStr ''string''), (''enum'', ECOSYSTEM_ENUM)])]),
           (''required'', JArr [JStr ''package''])]),
     (''dependency.alternatives'',
        JObj
          [(''type'', JStr ''object''),
           (''properties'', JObj
              [(''package'', JObj
                  [(''type'', JStr ''string''),
                   (''description'', JStr ''Package to find alternatives for'')]),
               (''framework'', JObj
                  [(''type'', JStr ''string''),
                   (''description'', JStr ''Framework context for ranking'')]),
               (''ecosystem'', JObj [(''type'', JStr ''string''), (''enum'', ECOSYSTEM_ENUM)]),
               (''limit'', JObj
                  [(''type'', JStr ''number''),
                   (''description'', JStr ''Max alternatives to return'')])]),
           (''required'', JArr [JStr ''package''])]),
     (''dependency.trends'',
        JObj
          [(''type'', JStr ''object''),
           (''properties'', JObj
              [(''package'', JObj
                  [(''type'', JStr ''string''),
                   (''description'', JStr ''Package to get trends for'')]),
               (''framework'', JObj
                  [(''type'', JStr ''string''),
                   (''description'', JStr ''Framework context'')]),
               (''ecosystem'', JObj [(''type'', JStr ''string''), (''enum'', ECOSYSTEM_ENUM)])]),
           (''required'', JArr [JStr ''package''])]),
     (''dependency.safe-upgrade'',
        JObj
          [(''type'', JStr ''object''),
           (''properties'', JObj
              [(''package'', JObj
                  [(''type'', JStr ''string''),
                   (''description'', JStr ''Package to upgrade'')]),
               (''currentVersion'', JObj [(''type'', JStr ''string''), (''description'', JStr ''Current version'')]),
               (''targetVersion'', JObj
                  [(''type'', JStr ''string''),
                   (''description'', JStr ''Target version (optional, defaults to latest)'')]),
               (''ecosystem'', JObj [(''type'', JStr ''string''), (''enum'', ECOSYSTEM_ENUM)])]),
           (''required'', JArr [JStr ''package'', JStr ''currentVersion''])]),
     (''stack.recommend'',
        JObj
          [(''type'', JStr ''object''),
           (''properties'', JObj
              [(''framework'', JObj
                  [(''type'', JStr ''string''),
                   (''description'', JStr ''Target framework (e.g., next, django)'')]),
               (''useCases'', JObj
                  [(''type'', JStr ''array''),
                   (''items'', JObj [(''type'', JStr ''string'')]),
                   (''description'', JStr ''Use cases: realtime, ai, ecommerce, cms, saas, api, mobile, desktop, cli, data, devtools'')]),
               (''persistence'', JObj
                  [(''type'', JStr ''string''),
                   (''enum'', JArr [JStr ''sql'', JStr ''nosql'', JStr ''graph'', JStr ''kv'', JStr ''none''])]),
               (''auth'', JObj
                  [(''type'', JStr ''string''),
                   (''enum'', JArr [JStr ''session'', JStr ''jwt'', JStr ''oauth'', JStr ''magic-link'', JStr ''none''])]),
               (''projectClass'', JObj
                  [(''type'', JStr ''string''),
                   (''enum'', JArr [JStr ''prototype'', JStr ''startup'', JStr ''growth'', JStr ''enterprise''])]),
               (''priorities'', JObj
                  [(''type'', JStr ''array''),
                   (''items'', JObj [(''type'', JStr ''string'')]),
                   (''description'', JStr ''Priorities: speed, stability, performance, cost'')]),
               (''constraints'', JObj
                  [(''type'', JStr ''object''),
                   (''properties'', JObj
                      [(''mustInclude'', JObj
                          [(''type'', JStr ''array''),
                           (''items'', JObj [(''type'', JStr ''string'')])]),
                       (''mustExclude'', JObj
                          [(''type'', JStr ''array''),
                           (''items'', JObj [(''type'', JStr ''string'')])]),
                       (''maxDependencies'', JObj [(''type'', JStr ''number'')])])])]),
           (''required'', JArr [JStr ''useCases''])]),
     (''stack.validate'',
        JObj
          [(''type'', JStr ''object''),
           (''properties'', JObj
              [(''packages'', JObj
                  [(''type'', JStr ''array''),
                   (''items'', JObj [(''type'', JStr ''string'')]),
                   (''description'', JStr ''Packages to validate'')]),
               (''framework'', JObj
                  [(''type'', JStr ''string''),
                   (''description'', JStr ''Framework context'')]),
               (''ecosystem'', JObj [(''type'', JStr ''string''), (''enum'', ECOSYSTEM_ENUM)])]),
           (''required'', JArr [JStr ''packages''])]),
     (''stack.defaults'',
        JObj
          [(''type'', JStr ''object''),
           (''properties'', JObj
              [(''framework'', JObj
                  [(''type'', JStr ''string''),
                   (''description'', JStr ''Framework to get defaults for'')]),
               (''strictMode'', JObj
                  [(''type'', JStr ''boolean''),
                   (''description'', JStr ''Only return required packages'')]),
               (''categories'', JObj
                  [(''type'', JStr ''array''),
                   (''items'', JObj [(''type'', JStr ''string'')]),
                   (''description'', JStr ''Filter by categories'')])]),
           (''required'', JArr [JStr ''framework''])]),
     (''migration.plan'',
        JObj
          [(''type'', JStr ''object''),
           (''properties'', JObj
              [(''from'', JObj
                  [(''type'', JStr ''string''),
                   (''description'', JStr ''Source package (e.g., moment@2.29.0)'')]),
               (''to'', JObj
                  [(''type'', JStr ''string''),
                   (''description'', JStr ''Target package (e.g., date-fns@3.0.0)'')]),
               (''ecosystem'', JObj [(''type'', JStr ''string''), (''enum'', ECOSYSTEM_ENUM)]),
               (''projectContext'', JObj
                  [(''type'', JStr ''object''),
                   (''properties'', JObj
                      [(''framework'', JObj [(''type'', JStr ''string'')]),
                       (''packages'', JObj
                          [(''type'', JStr ''array''),
                           (''items'', JObj [(''type'', JStr ''string'')])]),
                       (''files'', JObj
                          [(''type'', JStr ''array''),
                           (''items'', JObj [(''type'', JStr ''string'')])])])])]),
           (''required'', JArr [JStr ''from'', JStr ''to''])]),
     (''architecture.evaluate'',
        JObj
          [(''type'', JStr ''object''),
           (''properties'', JObj
              [(''packages'', JObj
                  [(''type'', JStr ''array''),
                   (''items'', JObj [(''type'', JStr ''string'')]),
                   (''description'', JStr ''Production dependencies'')]),
               (''devDependencies'', JObj
                  [(''type'', JStr ''array''),
                   (''items'', JObj [(''type'', JStr ''string'')]),
                   (''description'', JStr ''Dev dependencies'')]),
               (''framework'', JObj
                  [(''type'', JStr ''string''),
                   (''description'', JStr ''Expected framework'')]),
               (''ecosystem'', JObj [(''type'', JStr ''string''), (''enum'', ECOSYSTEM_ENUM)])]),
           (''required'', JArr [JStr ''packages''])]),
     (''signals.evaluate'',
        JObj
          [(''type'', JStr ''object''),
           (''properties'', JObj
              [(''action'', JObj
                  [(''type'', JStr ''string''),
                   (''enum'', JArr [JStr ''add'', JStr ''remove'', JStr ''upgrade'', JStr ''replace'']),
                   (''description'', JStr ''Action type'')]),
               (''package'', JObj
                  [(''type'', JStr ''string''),
                   (''description'', JStr ''Package to evaluate'')]),
               (''targetPackage'', JObj
                  [(''type'', JStr ''string''),
                   (''description'', JStr ''Target package (for replace action)'')]),
               (''targetVersion'', JObj
                  [(''type'', JStr ''string''),
                   (''description'', JStr ''Target version (for upgrade action)'')]),
               (''currentStack'', JObj
                  [(''type'', JStr ''array''),
                   (''items'', JObj [(''type'', JStr ''string'')]),
                   (''description'', JStr ''Current packages'')]),
               (''framework'', JObj
                  [(''type'', JStr ''string''),
                   (''description'', JStr ''Framework context'')]),
               (''ecosystem'', JObj [(''type'', JStr ''string''), (''enum'', ECOSYSTEM_ENUM)])]),
           (''required'', JArr [JStr ''action'', JStr ''package'', JStr ''currentStack''])])]"

text \<open>\<^verbatim>\<open>INPUT_SCHEMAS[name]\<close>: \<^verbatim>\<open>undefined\<close> for a name without a schema.\<close>

definition schema_lookup :: "string \<Rightarrow> 'n jsval" where
  "schema_lookup nm = (case map_of INPUT_SCHEMAS nm of None \<Rightarrow> JUndefined | Some v \<Rightarrow> v)"

section \<open>The dispatcher (server.ts)\<close>

subsection \<open>The upstream call\<close>

text \<open>
  The request handed to \<^verbatim>\<open>fetch\<close>, and what \<^verbatim>\<open>fetch\<close> gives back: a rejection
  (transport failure, or the abort fired by the timeout) or a response with its status,
  status text and the outcome of \<^verbatim>\<open>response.json()\<close> (a rejection when the body is not
  JSON). The upstream service is the parameter \<open>net\<close>, a function from the request to
  that outcome. What the call does besides returning is recorded as a list of events.
\<close>

record http_request =
  url :: string
  http_method :: string
  headers :: "(string \<times> string) list"
  body :: string

datatype 'n fetch_result =
    Rejected js_error
  | Responded nat string "js_error + 'n jsval"

datatype event = SetTimeout nat | Fetch http_request | ClearTimeout

definition response_ok :: "nat \<Rightarrow> bool" where
  "response_ok status = (200 \<le> status \<and> status \<le> 299)"

definition WORKSPACE_KEY_MESSAGE :: string where
  "WORKSPACE_KEY_MESSAGE =
     ''Workspace-scoped API key requires PATTERNSTACK_CLERK_USER_ID. Re-copy your MCP config from the dashboard in workspace mode.''"

definition API_KEY_NOT_SET_MESSAGE :: string where
  "API_KEY_NOT_SET_MESSAGE =
     ''PATTERNSTACK_API_KEY not set. Get your key at https://patternstack.ai/dashboard/keys''"

text \<open>\<^verbatim>\<open>typeof message === 'string' && message.includes('x-clerk-user-id')\<close>.\<close>

fun mentions_clerk_header :: "'n jsval \<Rightarrow> bool" where
  "mentions_clerk_header (JStr s) = sublist ''x-clerk-user-id'' s"
| "mentions_clerk_header JUndefined = False"
| "mentions_clerk_header JNull = False"
| "mentions_clerk_header (JBool b) = False"
| "mentions_clerk_header (JNum n) = False"
| "mentions_clerk_header (JArr xs) = False"
| "mentions_clerk_header (JObj kvs) = False"

text \<open>\<^verbatim>\<open>new Error(message || fallback)\<close>: the message is the text of a truthy value.\<close>

definition message_or :: "'n runtime \<Rightarrow> 'n jsval \<Rightarrow> string \<Rightarrow> string" where
  "message_or rt m fallback = (if truthy rt m then js_toString rt m else fallback)"

text \<open>
  The part of \<^verbatim>\<open>callTool\<close> that runs once \<^verbatim>\<open>fetch\<close> has resolved (from
  \<^verbatim>\<open>if (!response.ok)\<close> to \<^verbatim>\<open>return result.result\<close>).
\<close>

definition handle_response ::
  "'n runtime \<Rightarrow> nat \<Rightarrow> string \<Rightarrow> js_error + 'n jsval \<Rightarrow> js_error + 'n jsval" where
  "handle_response rt status statusText parsed =
     (if \<not> response_ok status then
        (let error = (case parsed of
                        Inl e \<Rightarrow> JObj [(''error'', JObj [(''message'', JStr statusText)])]
                      | Inr v \<Rightarrow> v) in
         case js_get error ''error'' of
           Inl e \<Rightarrow> Inl e
         | Inr inner \<Rightarrow>
             (let message = js_get_opt inner ''message'' in
              if status = 400 \<and> mentions_clerk_header message
              then Inl (new_Error WORKSPACE_KEY_MESSAGE)
              else Inl (new_Error (message_or rt message (''API error: '' @ show_nat status)))))
      else
        (case parsed of
           Inl e \<Rightarrow> Inl e
         | Inr result \<Rightarrow>
             (case js_get result ''success'' of
                Inl e \<Rightarrow> Inl e
              | Inr success \<Rightarrow>
                  if \<not> truthy rt success then
                    (case js_get result ''error'' of
                       Inl e \<Rightarrow> Inl e
                     | Inr inner \<Rightarrow>
                         Inl (new_Error (message_or rt (js_get_opt inner ''message'')
                                           ''Tool execution failed'')))
                  else js_get result ''result'')))"

text \<open>
  The request that \<^verbatim>\<open>callTool\<close> hands to \<^verbatim>\<open>fetch\<close>: the URL, the method, the
  headers (the \<^verbatim>\<open>x-clerk-user-id\<close> header only when that variable is set and not
  empty) and the body \<^verbatim>\<open>JSON.stringify({ tool, input })\<close>. The environment is read
  when the call is made.
\<close>

definition upstream_request ::
  "'n runtime \<Rightarrow> environment \<Rightarrow> string \<Rightarrow> 'n jsval \<Rightarrow> http_request" where
  "upstream_request rt env tool input =
     (let apiKey = env_or env ''PATTERNSTACK_API_KEY'' [];
          apiUrl = env_or env ''PATTERNSTACK_API_URL'' ''https://patternstack.ai'';
          clerkUserId = env_or env ''PATTERNSTACK_CLERK_USER_ID'' [] in
      \<lparr>url = apiUrl @ ''/api/mcp/tools/call'',
       http_method = ''POST'',
       headers =
         [(''Content-Type'', ''application/json''), (''Authorization'', ''Bearer '' @ apiKey)]
         @ (if clerkUserId = [] then [] else [(''x-clerk-user-id'', clerkUserId)]),
       body = json_ser rt [] [] (JObj [(''tool'', JStr tool), (''input'', input)])\<rparr>)"

text \<open>
  \<^verbatim>\<open>callTool\<close>. A missing or empty key throws before anything else happens;
  \<^verbatim>\<open>config.timeout\<close> throws for a tool that has no configuration. The timer is
  cleared once the response has arrived and once more in the \<^verbatim>\<open>catch\<close> block when
  anything is thrown after the timer was set.
\<close>

definition callTool ::
  "'n runtime \<Rightarrow> environment \<Rightarrow> (http_request \<Rightarrow> 'n fetch_result) \<Rightarrow> string \<Rightarrow> 'n jsval
     \<Rightarrow> (js_error + 'n jsval) \<times> event list" where
  "callTool rt env net tool input =
     (if env_or env ''PATTERNSTACK_API_KEY'' [] = []
      then (Inl (new_Error API_KEY_NOT_SET_MESSAGE), [])
      else
        (case tool_lookup tool of
           None \<Rightarrow>
             (Inl (new_TypeError (''Cannot read properties of undefined (reading ''
                                    @ [CHR 0x27] @ ''timeout'' @ [CHR 0x27] @ '')'')), [])
         | Some config \<Rightarrow>
             (let request = upstream_request rt env tool input in
              case net request of
                Rejected e \<Rightarrow> (Inl e, [SetTimeout (timeout config), Fetch request, ClearTimeout])
              | Responded status statusText parsed \<Rightarrow>
                  (case handle_response rt status statusText parsed of
                     Inl e \<Rightarrow>
                       (Inl e, [SetTimeout (timeout config), Fetch request, ClearTimeout,
                                ClearTimeout])
                   | Inr r \<Rightarrow>
                       (Inr r, [SetTimeout (timeout config), Fetch request, ClearTimeout])))))"

subsection \<open>The request handlers\<close>

record 'n tool_listing =
  tool_name :: string
  tool_description :: string
  inputSchema :: "'n jsval"

definition listToolsHandler :: "'n tool_listing list" where
  "listToolsHandler =
     map (\<lambda>(nm, config).
            \<lparr>tool_name = nm, tool_description = description config,
             inputSchema = schema_lookup nm\<rparr>)
       (filter (\<lambda>(nm, config). nm \<notin> set HIDDEN_TOOLS) TOOL_CONFIG)"

definition listResourcesHandler :: "resource list" where
  "listResourcesHandler = RESOURCES"

record resource_contents =
  c_uri :: string
  c_mimeType :: string
  c_text :: string

text \<open>An unknown URI makes \<^verbatim>\<open>getResource\<close> throw, and the handler with it.\<close>

definition readResourceHandler ::
  "resources_module \<Rightarrow> string \<Rightarrow> js_error + resource_contents list" where
  "readResourceHandler m u =
     (case getResource m u of
        Inl e \<Rightarrow> Inl e
      | Inr content \<Rightarrow> Inr [\<lparr>c_uri = u, c_mimeType = ''text/markdown'', c_text = content\<rparr>])"

text \<open>
  The response of a tool call: one text item, and \<^verbatim>\<open>isError: true\<close> on the error
  path (the field is absent, \<open>None\<close>, on the success path).
\<close>

record content_item =
  item_type :: string
  item_text :: string

record tool_response =
  content :: "content_item list"
  isError :: "bool option"

text \<open>
  The call-tool handler. The registry check comes first and throws outside the
  \<^verbatim>\<open>try\<close> block; \<^verbatim>\<open>callTool\<close> and \<^verbatim>\<open>formatResult\<close> run inside it.
  \<open>Inl\<close> is an error thrown by the handler itself.
\<close>

definition callToolHandler ::
  "'n runtime \<Rightarrow> (string \<Rightarrow> 'n jsval \<Rightarrow> js_error + string) \<Rightarrow> environment
     \<Rightarrow> (http_request \<Rightarrow> 'n fetch_result) \<Rightarrow> string \<Rightarrow> 'n jsval
     \<Rightarrow> (js_error + tool_response) \<times> event list" where
  "callToolHandler rt templates env net nm args =
     (if nm \<notin> set tool_names then (Inl (new_Error (''Unknown tool: '' @ nm)), [])
      else
        (case callTool rt env net nm (if truthy rt args then args else JObj []) of
           (outcome, events) \<Rightarrow>
             (case (case outcome of
                      Inl e \<Rightarrow> Inl e
                    | Inr result \<Rightarrow> formatResult rt templates nm result) of
                Inr txt \<Rightarrow>
                  (Inr \<lparr>content = [\<lparr>item_type = ''text'', item_text = txt\<rparr>], isError = None\<rparr>,
                   events)
              | Inl err \<Rightarrow>
                  (Inr \<lparr>content = [\<lparr>item_type = ''text'',
                                    item_text = ''Error: '' @ message err\<rparr>],
                        isError = Some True\<rparr>, events))))"

section \<open>The process (index.ts)\<close>

text \<open>
  The state of the running server that the handlers depend on: the constants that
  resources.ts computed when it was loaded, and the current environment. index.ts imports
  server.ts (and through it resources.ts) before its body runs, so the module constants are
  taken from the environment the process was started with; \<^verbatim>\<open>dotenv.config()\<close> then
  adds the variables of the \<^verbatim>\<open>.env\<close> file that the environment does not define yet.
\<close>

record process_state =
  resources_mod :: resources_module
  process_env :: environment

definition startup :: "environment \<Rightarrow> process_state" where
  "startup env0 = \<lparr>resources_mod = load_resources env0, process_env = env0\<rparr>"

definition set_env :: "string \<Rightarrow> string \<Rightarrow> process_state \<Rightarrow> process_state" where
  "set_env var v st = st\<lparr>process_env := (process_env st)(var \<mapsto> v)\<rparr>"

definition dotenv_config :: "environment \<Rightarrow> process_state \<Rightarrow> process_state" where
  "dotenv_config file st = st\<lparr>process_env := file ++ process_env st\<rparr>"

definition index_main :: "environment \<Rightarrow> environment \<Rightarrow> process_state" where
  "index_main env0 file = dotenv_config file (startup env0)"

definition handle_ReadResource :: "process_state \<Rightarrow> string \<Rightarrow> js_error + resource_contents list" where
  "handle_ReadResource st u = readResourceHandler (resources_mod st) u"

definition handle_CallTool ::
  "'n runtime \<Rightarrow> (string \<Rightarrow> 'n jsval \<Rightarrow> js_error + string) \<Rightarrow> (http_request \<Rightarrow> 'n fetch_result)
     \<Rightarrow> process_state \<Rightarrow> string \<Rightarrow> 'n jsval \<Rightarrow> (js_error + tool_response) \<times> event list" where
  "handle_CallTool rt templates net st nm args =
     callToolHandler rt templates (process_env st) net nm args"

section \<open>A concrete runtime for running the model\<close>

text \<open>
  To evaluate the model on examples, numbers are instantiated with the integers: an
  integer renders in decimal both as text and in JSON, and only zero is falsy. The bespoke
  templates are instantiated with a stand-in that renders a heading.
\<close>

definition show_int :: "int \<Rightarrow> string" where
  "show_int i = (if i < 0 then ''-'' @ show_nat (nat (- i)) else show_nat (nat i))"

definition int_runtime :: "int runtime" where
  "int_runtime = \<lparr>numToString = show_int, numToJSON = show_int, numFalsy = (\<lambda>i. i = 0)\<rparr>"

definition heading_templates :: "string \<Rightarrow> int jsval \<Rightarrow> js_error + string" where
  "heading_templates tool data = Inr (''# '' @ tool)"

section \<open>Facts about the registry\<close>

lemma tool_names_eval:
  "tool_names =
     [''dependency.explain'', ''dependency.health'', ''dependency.alternatives'',
      ''dependency.trends'', ''dependency.safe-upgrade'', ''stack.recommend'',
      ''stack.validate'', ''stack.defaults'', ''migration.plan'',
      ''architecture.evaluate'', ''signals.evaluate'']"
  by (simp add: tool_names_def TOOL_CONFIG_def)

lemma tool_names_distinct: "distinct tool_names"
  by (simp add: tool_names_eval)

lemma tool_lookup_registered: "nm \<in> set tool_names \<Longrightarrow> tool_lookup nm \<noteq> None"
  by (simp add: tool_names_def tool_lookup_def map_of_eq_None_iff)

lemma tool_lookup_in_names: "tool_lookup tool \<noteq> None \<Longrightarrow> tool \<in> set tool_names"
  by (simp add: tool_names_def tool_lookup_def map_of_eq_None_iff)

lemma hidden_tools_registered: "set HIDDEN_TOOLS \<subseteq> set tool_names"
  by (simp add: HIDDEN_TOOLS_def tool_names_eval)

lemma every_tool_has_schema: "map fst (INPUT_SCHEMAS :: (string \<times> 'n jsval) list) = tool_names"
  by (simp add: INPUT_SCHEMAS_def tool_names_eval)

lemma stack_defaults_lookup: "tool_lookup ''stack.defaults'' \<noteq> None"
  by (simp add: tool_lookup_def TOOL_CONFIG_def)

text \<open>
  Claim C9, as stated, asks for pairwise distinct timeouts. The registry gives
  \<^verbatim>\<open>dependency.explain\<close> and \<^verbatim>\<open>dependency.safe-upgrade\<close> the same timeout of
  15000 ms, so the timeouts are not distinct.
\<close>

theorem C9_timeouts_not_distinct:
  "map_option timeout (tool_lookup ''dependency.explain'') = Some 15000
   \<and> map_option timeout (tool_lookup ''dependency.safe-upgrade'') = Some 15000
   \<and> ''dependency.explain'' \<noteq> ''dependency.safe-upgrade''
   \<and> \<not> distinct (map (timeout \<circ> snd) TOOL_CONFIG)"
  by (simp add: tool_lookup_def TOOL_CONFIG_def)

text \<open>
  Claim C9, amended: every tool of the static registry has a timeout between 5 and 45
  seconds (5000 to 45000 ms) and a weight between 1 and 5, and each tool name carries
  exactly one configuration (the names are distinct). Nothing is said about timeouts
  differing between tools.
\<close>

theorem C9_timeout_weight_ranges:
  "(\<forall>(nm, c) \<in> set TOOL_CONFIG.
      5000 \<le> timeout c \<and> timeout c \<le> 45000 \<and> 1 \<le> weight c \<and> weight c \<le> 5)
   \<and> distinct (map fst TOOL_CONFIG)"
  by (simp add: TOOL_CONFIG_def)

text \<open>The ranges at the most expensive tool, \<^verbatim>\<open>architecture.evaluate\<close>.\<close>

theorem C9_timeout_weight_ranges_witness:
  "tool_lookup ''architecture.evaluate'' \<noteq> None
   \<and> (''architecture.evaluate'', the (tool_lookup ''architecture.evaluate'')) \<in> set TOOL_CONFIG
   \<and> 5000 \<le> timeout (the (tool_lookup ''architecture.evaluate''))
   \<and> timeout (the (tool_lookup ''architecture.evaluate'')) \<le> 45000
   \<and> 1 \<le> weight (the (tool_lookup ''architecture.evaluate''))
   \<and> weight (the (tool_lookup ''architecture.evaluate'')) \<le> 5"
proof -
  have l: "tool_lookup ''architecture.evaluate'' \<noteq> None"
    by (simp add: tool_lookup_def TOOL_CONFIG_def)
  then have m: "(''architecture.evaluate'', the (tool_lookup ''architecture.evaluate''))
                  \<in> set TOOL_CONFIG"
    by (auto simp: tool_lookup_def dest: map_of_SomeD)
  from C9_timeout_weight_ranges l m show ?thesis
    by blast
qed

section \<open>Facts about the upstream call\<close>

text \<open>
  A request appears in the events of \<^verbatim>\<open>callTool\<close> exactly when the key is present and
  the tool has a configuration; it is then the one request built from the environment, and
  the outcome of the call is decided by what the upstream answers to it.
\<close>

lemma callTool_no_key:
  "env_or env ''PATTERNSTACK_API_KEY'' [] = [] \<Longrightarrow>
   callTool rt env net tool input = (Inl (new_Error API_KEY_NOT_SET_MESSAGE), [])"
  by (simp add: callTool_def)

lemma callTool_issues_request:
  assumes "env_or env ''PATTERNSTACK_API_KEY'' [] \<noteq> []" and "tool_lookup tool \<noteq> None"
  shows "Fetch (upstream_request rt env tool input) \<in> set (snd (callTool rt env net tool input))"
  using assms
  by (auto simp: callTool_def Let_def split: option.splits fetch_result.splits sum.splits)

lemma callTool_fetch_request:
  assumes "Fetch req \<in> set (snd (callTool rt env net tool input))"
  shows "(\<forall>e. net req = Rejected e \<longrightarrow> fst (callTool rt env net tool input) = Inl e)
       \<and> (\<forall>status statusText parsed. net req = Responded status statusText parsed \<longrightarrow>
             fst (callTool rt env net tool input) = handle_response rt status statusText parsed)"
  using assms
  by (auto simp: callTool_def Let_def split: if_splits option.splits fetch_result.splits sum.splits)

lemma callTool_fetch_registered:
  assumes "Fetch req \<in> set (snd (callTool rt env net tool input))"
  shows "tool \<in> set tool_names"
proof -
  have "tool_lookup tool \<noteq> None"
    using assms by (auto simp: callTool_def split: if_splits option.splits)
  then show ?thesis by (rule tool_lookup_in_names)
qed

lemma sample_key_present:
  "env_or [''PATTERNSTACK_API_KEY'' \<mapsto> ''k1''] ''PATTERNSTACK_API_KEY'' [] \<noteq> []"
  by (simp add: env_or_def)

lemma callToolHandler_registered:
  assumes "nm \<in> set tool_names"
  shows "(env_or env ''PATTERNSTACK_API_KEY'' [] = [] \<longrightarrow>
            callToolHandler rt templates env net nm args
              = (Inr \<lparr>content = [\<lparr>item_type = ''text'',
                                   item_text = ''Error: '' @ API_KEY_NOT_SET_MESSAGE\<rparr>],
                      isError = Some True\<rparr>, []))
       \<and> (env_or env ''PATTERNSTACK_API_KEY'' [] \<noteq> [] \<longrightarrow>
            Fetch (upstream_request rt env nm (if truthy rt args then args else JObj []))
              \<in> set (snd (callToolHandler rt templates env net nm args)))"
proof (intro conjI impI)
  assume "env_or env ''PATTERNSTACK_API_KEY'' [] = []"
  then show "callToolHandler rt templates env net nm args
              = (Inr \<lparr>content = [\<lparr>item_type = ''text'',
                                   item_text = ''Error: '' @ API_KEY_NOT_SET_MESSAGE\<rparr>],
                      isError = Some True\<rparr>, [])"
    using assms by (simp add: callToolHandler_def callTool_no_key new_Error_def)
next
  assume key: "env_or env ''PATTERNSTACK_API_KEY'' [] \<noteq> []"
  have "Fetch (upstream_request rt env nm (if truthy rt args then args else JObj []))
          \<in> set (snd (callTool rt env net nm (if truthy rt args then args else JObj [])))"
    using callTool_issues_request [OF key tool_lookup_registered [OF assms]] .
  then show "Fetch (upstream_request rt env nm (if truthy rt args then args else JObj []))
              \<in> set (snd (callToolHandler rt templates env net nm args))"
    using assms by (auto simp: callToolHandler_def split: prod.splits sum.splits)
qed

section \<open>Facts about the formatter\<close>

text \<open>
  For a tool name without a case of its own, the formatter reads \<^verbatim>\<open>_agi\<close> of the
  result and returns the generic rendering, followed by the guidance section when there is
  a guidance object. For any result other than \<^verbatim>\<open>null\<close> and \<^verbatim>\<open>undefined\<close> the
  read succeeds, so the formatter returns.
\<close>

lemma formatResult_generic:
  assumes "tool \<notin> set bespoke_tools"
  shows "formatResult rt templates tool result
           = (case js_get result ''_agi'' of
                Inl e \<Rightarrow> Inl e
              | Inr agi \<Rightarrow>
                  Inr (generic_rendering rt tool result
                         @ (if truthy rt agi \<and> typeof_object agi then formatAgi rt agi else [])))"
  using assms by (simp add: formatResult_def split: sum.splits)

lemma formatResult_generic_defined:
  assumes "tool \<notin> set bespoke_tools" and "result \<noteq> JNull" and "result \<noteq> JUndefined"
  shows "\<exists>agi. js_get result ''_agi'' = Inr agi
           \<and> formatResult rt templates tool result
               = Inr (generic_rendering rt tool result
                        @ (if truthy rt agi \<and> typeof_object agi then formatAgi rt agi else []))"
  using assms by (cases result) (simp_all add: formatResult_generic)

lemma formatResult_generic_nullish:
  assumes "tool \<notin> set bespoke_tools" and "result = JNull \<or> result = JUndefined"
  shows "\<exists>e. formatResult rt templates tool result = Inl e \<and> err_name e = ''TypeError''"
  using assms by (auto simp: formatResult_generic new_TypeError_def)

section \<open>The call-tool handler\<close>

text \<open>
  Claim C1, as stated, says that no thrown failure, the unknown-tool failure included,
  propagates past the call-tool handler. The registry check throws before the
  \<^verbatim>\<open>try\<close> block is entered: for a name that is not registered the handler itself
  throws \<^verbatim>\<open>Unknown tool: no.such.tool\<close> instead of returning a response.
\<close>

theorem C1_unknown_tool_is_thrown:
  "fst (callToolHandler int_runtime heading_templates Map.empty
          (\<lambda>request. Rejected (new_Error ''fetch failed'')) ''no.such.tool'' (JObj []))
     = Inl (new_Error ''Unknown tool: no.such.tool'')"
  by (simp add: callToolHandler_def tool_names_eval)

text \<open>
  Claim C1, amended: for every tool-call request that names a registered tool, the
  handler returns a response and never throws; any failure raised by the invocation
  (by \<^verbatim>\<open>callTool\<close>, or by the formatter on the returned result) is returned as a
  response whose content is the one text item \<^verbatim>\<open>Error: <message>\<close> and whose
  \<^verbatim>\<open>isError\<close> flag is true. The unknown-tool failure is not part of this: it is thrown
  by the handler.
\<close>

theorem C1_registered_tool_failures_are_caught:
  assumes "nm \<in> set tool_names"
  shows "(\<exists>resp. fst (callToolHandler rt templates env net nm args) = Inr resp)
       \<and> (\<forall>e. fst (callTool rt env net nm (if truthy rt args then args else JObj [])) = Inl e \<longrightarrow>
            fst (callToolHandler rt templates env net nm args)
              = Inr \<lparr>content = [\<lparr>item_type = ''text'', item_text = ''Error: '' @ message e\<rparr>],
                     isError = Some True\<rparr>)
       \<and> (\<forall>r e. fst (callTool rt env net nm (if truthy rt args then args else JObj [])) = Inr r
                \<and> formatResult rt templates nm r = Inl e \<longrightarrow>
            fst (callToolHandler rt templates env net nm args)
              = Inr \<lparr>content = [\<lparr>item_type = ''text'', item_text = ''Error: '' @ message e\<rparr>],
                     isError = Some True\<rparr>)"
  using assms
  by (auto simp: callToolHandler_def split: prod.splits sum.splits)

text \<open>
  Two runs of a registered tool: without a key \<^verbatim>\<open>callTool\<close> throws, and with a key
  and an upstream result of \<^verbatim>\<open>null\<close> the formatter throws; both come back as error
  responses.
\<close>

theorem C1_registered_tool_failures_are_caught_witness:
  "''stack.defaults'' \<in> set tool_names
   \<and> fst (callToolHandler int_runtime heading_templates Map.empty
             (\<lambda>request. Rejected (new_Error ''fetch failed'')) ''stack.defaults'' (JObj []))
       = Inr \<lparr>content = [\<lparr>item_type = ''text'',
                            item_text = ''Error: PATTERNSTACK_API_KEY not set. Get your key at https://patternstack.ai/dashboard/keys''\<rparr>],
              isError = Some True\<rparr>
   \<and> fst (callToolHandler int_runtime heading_templates [''PATTERNSTACK_API_KEY'' \<mapsto> ''k1'']
             (\<lambda>request. Responded 200 ''OK''
                (Inr (JObj [(''success'', JBool True), (''result'', JNull)])))
             ''stack.defaults'' (JObj []))
       = Inr \<lparr>content = [\<lparr>item_type = ''text'',
                            item_text = ''Error: Cannot read properties of null (reading ''
                                          @ [CHR 0x27] @ ''_agi'' @ [CHR 0x27] @ '')''\<rparr>],
              isError = Some True\<rparr>"
proof -
  let ?env = "[''PATTERNSTACK_API_KEY'' \<mapsto> ''k1'']"
  let ?down = "\<lambda>request::http_request. (Rejected (new_Error ''fetch failed'') :: int fetch_result)"
  let ?null = "\<lambda>request::http_request. (Responded 200 ''OK''
                (Inr (JObj [(''success'', JBool True), (''result'', JNull)])) :: int fetch_result)"
  have reg: "''stack.defaults'' \<in> set tool_names"
    by (simp add: tool_names_eval)
  have fail: "fst (callTool int_runtime Map.empty ?down ''stack.defaults''
                     (if truthy int_runtime (JObj []) then JObj [] else JObj []))
                = Inl (new_Error API_KEY_NOT_SET_MESSAGE)"
    by (simp add: callTool_def env_or_def)
  have f: "Fetch (upstream_request int_runtime ?env ''stack.defaults'' (JObj []))
             \<in> set (snd (callTool int_runtime ?env ?null ''stack.defaults'' (JObj [])))"
    by (rule callTool_issues_request [OF sample_key_present stack_defaults_lookup])
  have "fst (callTool int_runtime ?env ?null ''stack.defaults'' (JObj []))
          = handle_response int_runtime 200 ''OK''
              (Inr (JObj [(''success'', JBool True), (''result'', JNull)]))"
    using callTool_fetch_request [OF f] by simp
  then have ok: "fst (callTool int_runtime ?env ?null ''stack.defaults''
                        (if truthy int_runtime (JObj []) then JObj [] else JObj []))
                   = Inr JNull"
    by (simp add: handle_response_def response_ok_def)
  have thrown: "formatResult int_runtime heading_templates ''stack.defaults'' JNull
                  = Inl (new_TypeError (''Cannot read properties of null (reading ''
                                          @ [CHR 0x27] @ ''_agi'' @ [CHR 0x27] @ '')''))"
    by (simp add: formatResult_def bespoke_tools_def)
  have a: "fst (callToolHandler int_runtime heading_templates Map.empty ?down
                  ''stack.defaults'' (JObj []))
             = Inr \<lparr>content = [\<lparr>item_type = ''text'',
                        item_text = ''Error: '' @ message (new_Error API_KEY_NOT_SET_MESSAGE)\<rparr>],
                    isError = Some True\<rparr>"
    using fail
      C1_registered_tool_failures_are_caught [OF reg, of int_runtime heading_templates Map.empty
        ?down "JObj []"]
    by blast
  have b: "fst (callToolHandler int_runtime heading_templates ?env ?null
                  ''stack.defaults'' (JObj []))
             = Inr \<lparr>content = [\<lparr>item_type = ''text'',
                        item_text = ''Error: '' @ message (new_TypeError
                            (''Cannot read properties of null (reading ''
                               @ [CHR 0x27] @ ''_agi'' @ [CHR 0x27] @ '')''))\<rparr>],
                    isError = Some True\<rparr>"
    using ok thrown
      C1_registered_tool_failures_are_caught [OF reg, of int_runtime heading_templates ?env
        ?null "JObj []"]
    by blast
  show ?thesis
    using reg a b by (simp add: new_Error_def new_TypeError_def API_KEY_NOT_SET_MESSAGE_def)
qed

text \<open>
  Claim C4: for every tool name that is not in the registry, a tool-call request fails
  with the error message \<^verbatim>\<open>Unknown tool: <name>\<close>, which contains the requested name,
  and no HTTP request is issued (the handler produces no event at all).
\<close>

theorem C4_unknown_tool:
  assumes "nm \<notin> set tool_names"
  shows "callToolHandler rt templates env net nm args
           = (Inl (new_Error (''Unknown tool: '' @ nm)), [])
       \<and> message (new_Error (''Unknown tool: '' @ nm)) = ''Unknown tool: '' @ nm
       \<and> sublist nm (message (new_Error (''Unknown tool: '' @ nm)))
       \<and> (\<forall>request. Fetch request \<notin> set (snd (callToolHandler rt templates env net nm args)))"
  using assms
  by (simp add: callToolHandler_def new_Error_def
        sublist_appendI [of nm "''Unknown tool: ''" "[]", simplified])

text \<open>An unregistered name, called with a key in the environment: thrown, nothing sent.\<close>

theorem C4_unknown_tool_witness:
  "''no.such.tool'' \<notin> set tool_names
   \<and> callToolHandler int_runtime heading_templates [''PATTERNSTACK_API_KEY'' \<mapsto> ''k1'']
        (\<lambda>request. Rejected (new_Error ''fetch failed'')) ''no.such.tool'' (JObj [])
       = (Inl (new_Error ''Unknown tool: no.such.tool''), [])"
proof -
  have unk: "''no.such.tool'' \<notin> set tool_names"
    by (simp add: tool_names_eval)
  show ?thesis
    using unk C4_unknown_tool [OF unk, of int_runtime heading_templates
        "[''PATTERNSTACK_API_KEY'' \<mapsto> ''k1'']"
        "\<lambda>request. Rejected (new_Error ''fetch failed'')" "JObj []"]
    by simp
qed

section \<open>The upstream call\<close>

text \<open>
  Claim C3: whenever \<^verbatim>\<open>callTool\<close> has issued its request and the upstream answers
  it with a 2xx status and a JSON body whose \<^verbatim>\<open>success\<close> is \<^verbatim>\<open>true\<close> and whose
  \<^verbatim>\<open>result\<close> is \<open>R\<close>, \<^verbatim>\<open>callTool\<close> returns exactly \<open>R\<close>; the handler then
  passes this \<open>R\<close> to the formatter and answers with the formatter's text (or, when the
  formatter throws, with the error response).
\<close>

theorem C3_success_result_unmodified:
  assumes "Fetch req \<in> set (snd (callTool rt env net tool input))"
      and "net req = Responded status statusText (Inr (JObj kvs))"
      and "response_ok status"
      and "map_of kvs ''success'' = Some (JBool True)"
      and "map_of kvs ''result'' = Some R"
  shows "fst (callTool rt env net tool input) = Inr R
       \<and> (input = (if truthy rt args then args else JObj []) \<longrightarrow>
            fst (callToolHandler rt templates env net tool args)
              = (case formatResult rt templates tool R of
                   Inr txt \<Rightarrow> Inr \<lparr>content = [\<lparr>item_type = ''text'', item_text = txt\<rparr>],
                                   isError = None\<rparr>
                 | Inl err \<Rightarrow> Inr \<lparr>content = [\<lparr>item_type = ''text'',
                                                item_text = ''Error: '' @ message err\<rparr>],
                                    isError = Some True\<rparr>))"
proof -
  have "fst (callTool rt env net tool input)
          = handle_response rt status statusText (Inr (JObj kvs))"
    using callTool_fetch_request [OF assms(1)] assms(2) by blast
  also have "\<dots> = Inr R"
    using assms(3-5) by (simp add: handle_response_def)
  finally have r: "fst (callTool rt env net tool input) = Inr R" .
  have reg: "tool \<in> set tool_names"
    using callTool_fetch_registered [OF assms(1)] .
  show ?thesis
    using r reg by (auto simp: callToolHandler_def split: prod.splits sum.splits)
qed

text \<open>
  A call of \<^verbatim>\<open>stack.defaults\<close> with a key, answered by 200 and a successful body: the
  request is issued and the result object comes back as it is.
\<close>

theorem C3_success_result_unmodified_witness:
  "Fetch (upstream_request int_runtime [''PATTERNSTACK_API_KEY'' \<mapsto> ''k1''] ''stack.defaults''
            (JObj []))
     \<in> set (snd (callTool int_runtime [''PATTERNSTACK_API_KEY'' \<mapsto> ''k1'']
          (\<lambda>request. Responded 200 ''OK''
             (Inr (JObj [(''success'', JBool True),
                         (''result'', JObj [(''framework'', JStr ''next'')])])))
          ''stack.defaults'' (JObj [])))
   \<and> response_ok 200
   \<and> fst (callTool int_runtime [''PATTERNSTACK_API_KEY'' \<mapsto> ''k1'']
          (\<lambda>request. Responded 200 ''OK''
             (Inr (JObj [(''success'', JBool True),
                         (''result'', JObj [(''framework'', JStr ''next'')])])))
          ''stack.defaults'' (JObj []))
     = Inr (JObj [(''framework'', JStr ''next'')])"
proof -
  have f: "Fetch (upstream_request int_runtime [''PATTERNSTACK_API_KEY'' \<mapsto> ''k1'']
                    ''stack.defaults'' (JObj []))
            \<in> set (snd (callTool int_runtime [''PATTERNSTACK_API_KEY'' \<mapsto> ''k1'']
          (\<lambda>request. Responded 200 ''OK''
             (Inr (JObj [(''success'', JBool True),
                         (''result'', JObj [(''framework'', JStr ''next'')])])))
          ''stack.defaults'' (JObj [])))"
    by (rule callTool_issues_request [OF sample_key_present stack_defaults_lookup])
  show ?thesis
    using f C3_success_result_unmodified [OF f, of 200 "''OK''"
        "[(''success'', JBool True), (''result'', JObj [(''framework'', JStr ''next'')])]"
        "JObj [(''framework'', JStr ''next'')]"]
    by (simp add: response_ok_def)
qed




section \<open>Hidden tools\<close>

lemma schemas_are_objects:
  "\<forall>(nm, sch) \<in> set (INPUT_SCHEMAS :: (string \<times> 'n jsval) list).
     \<exists>kvs. sch = JObj kvs \<and> map_of kvs ''type'' = Some (JStr ''object'')"
  by (simp add: INPUT_SCHEMAS_def)

lemma schema_lookup_registered:
  assumes "nm \<in> set tool_names"
  shows "\<exists>kvs. map_of (INPUT_SCHEMAS :: (string \<times> 'n jsval) list) nm = Some (JObj kvs)
           \<and> (schema_lookup nm :: 'n jsval) = JObj kvs
           \<and> map_of kvs ''type'' = Some (JStr ''object'')"
proof -
  have "nm \<in> fst ` set (INPUT_SCHEMAS :: (string \<times> 'n jsval) list)"
    using assms every_tool_has_schema [where 'n = 'n] by (metis set_map)
  then obtain sch where s: "map_of (INPUT_SCHEMAS :: (string \<times> 'n jsval) list) nm = Some sch"
    by (cases "map_of (INPUT_SCHEMAS :: (string \<times> 'n jsval) list) nm")
       (simp_all add: map_of_eq_None_iff)
  then have "(nm, sch) \<in> set (INPUT_SCHEMAS :: (string \<times> 'n jsval) list)"
    by (rule map_of_SomeD)
  then obtain kvs where "sch = JObj kvs" and "map_of kvs ''type'' = Some (JStr ''object'')"
    using schemas_are_objects [where 'n = 'n] by blast
  then show ?thesis
    using s by (simp add: schema_lookup_def)
qed

lemma hidden_tools_not_listed:
  "nm \<in> set HIDDEN_TOOLS \<Longrightarrow>
   nm \<notin> set (map tool_name (listToolsHandler :: 'n tool_listing list))"
  by (auto simp: listToolsHandler_def)

lemma listed_tool_names:
  "map tool_name (listToolsHandler :: 'n tool_listing list)
     = filter (\<lambda>nm. nm \<notin> set HIDDEN_TOOLS) tool_names"
  by (simp add: listToolsHandler_def tool_names_def TOOL_CONFIG_def HIDDEN_TOOLS_def)

lemma visible_tools_listed:
  assumes "(nm, c) \<in> set TOOL_CONFIG" and "nm \<notin> set HIDDEN_TOOLS"
  shows "\<exists>kvs. map_of (INPUT_SCHEMAS :: (string \<times> 'n jsval) list) nm = Some (JObj kvs)
           \<and> map_of kvs ''type'' = Some (JStr ''object'')
           \<and> \<lparr>tool_name = nm, tool_description = description c,
               inputSchema = (JObj kvs :: 'n jsval)\<rparr> \<in> set listToolsHandler"
proof -
  have l: "\<lparr>tool_name = nm, tool_description = description c,
          inputSchema = (schema_lookup nm :: 'n jsval)\<rparr> \<in> set listToolsHandler"
    using assms by (force simp: listToolsHandler_def)
  have "nm \<in> set tool_names" using assms(1) by (force simp: tool_names_def)
  then show ?thesis
    using schema_lookup_registered [of nm, where 'n = 'n] l by auto
qed

lemma callToolHandler_dispatch:
  assumes "nm \<in> set tool_names"
  shows "callToolHandler rt templates env net nm args
           = (case callTool rt env net nm (if truthy rt args then args else JObj []) of
                (Inl e, events) \<Rightarrow>
                  (Inr \<lparr>content = [\<lparr>item_type = ''text'',
                                      item_text = ''Error: '' @ message e\<rparr>],
                        isError = Some True\<rparr>, events)
              | (Inr result, events) \<Rightarrow>
                  (case formatResult rt templates nm result of
                     Inr txt \<Rightarrow>
                       (Inr \<lparr>content = [\<lparr>item_type = ''text'', item_text = txt\<rparr>],
                             isError = None\<rparr>, events)
                   | Inl e \<Rightarrow>
                       (Inr \<lparr>content = [\<lparr>item_type = ''text'',
                                           item_text = ''Error: '' @ message e\<rparr>],
                             isError = Some True\<rparr>, events)))"
  using assms by (simp add: callToolHandler_def split: prod.splits sum.splits)

text \<open>
  Claim C6: a name in the hidden-tools set is never in the tool listing (the listed
  names are exactly the registered names that are not hidden), yet it is a registered
  name. A call of any registered name, hidden or not, is handled by one and the same rule:
  the handler runs \<^verbatim>\<open>callTool\<close> for that name and answers with the formatted result,
  or with the error response when the call or the formatter throws; so without a key the
  answer is the key-not-set error and nothing is sent, and with a key the request for
  that tool is issued. Every registered tool that is not hidden is listed with its name,
  its description and its input schema, which is the object that the schema table holds
  for that name.
\<close>

theorem C6_hidden_tools_listing_and_calls:
  "(\<forall>nm \<in> set HIDDEN_TOOLS.
       nm \<notin> set (map tool_name (listToolsHandler :: 'n tool_listing list))
     \<and> nm \<in> set tool_names)
   \<and> map tool_name (listToolsHandler :: 'n tool_listing list)
       = filter (\<lambda>nm. nm \<notin> set HIDDEN_TOOLS) tool_names
   \<and> (\<forall>nm \<in> set tool_names.
         callToolHandler rt templates env net nm args
           = (case callTool rt env net nm (if truthy rt args then args else JObj []) of
                (Inl e, events) \<Rightarrow>
                  (Inr \<lparr>content = [\<lparr>item_type = ''text'',
                                      item_text = ''Error: '' @ message e\<rparr>],
                        isError = Some True\<rparr>, events)
              | (Inr result, events) \<Rightarrow>
                  (case formatResult rt templates nm result of
                     Inr txt \<Rightarrow>
                       (Inr \<lparr>content = [\<lparr>item_type = ''text'', item_text = txt\<rparr>],
                             isError = None\<rparr>, events)
                   | Inl e \<Rightarrow>
                       (Inr \<lparr>content = [\<lparr>item_type = ''text'',
                                           item_text = ''Error: '' @ message e\<rparr>],
                             isError = Some True\<rparr>, events)))
       \<and> (env_or env ''PATTERNSTACK_API_KEY'' [] = [] \<longrightarrow>
            callToolHandler rt templates env net nm args
              = (Inr \<lparr>content = [\<lparr>item_type = ''text'',
                                   item_text = ''Error: '' @ API_KEY_NOT_SET_MESSAGE\<rparr>],
                      isError = Some True\<rparr>, []))
       \<and> (env_or env ''PATTERNSTACK_API_KEY'' [] \<noteq> [] \<longrightarrow>
            Fetch (upstream_request rt env nm (if truthy rt args then args else JObj []))
              \<in> set (snd (callToolHandler rt templates env net nm args))))
   \<and> (\<forall>(nm, c) \<in> set TOOL_CONFIG.
         nm \<notin> set HIDDEN_TOOLS \<longrightarrow>
           (\<exists>kvs. map_of (INPUT_SCHEMAS :: (string \<times> 'n jsval) list) nm = Some (JObj kvs)
              \<and> map_of kvs ''type'' = Some (JStr ''object'')
              \<and> \<lparr>tool_name = nm, tool_description = description c,
                  inputSchema = (JObj kvs :: 'n jsval)\<rparr> \<in> set listToolsHandler))"
proof -
  have hidden: "nm \<notin> set (map tool_name (listToolsHandler :: 'n tool_listing list))
                  \<and> nm \<in> set tool_names"
    if h: "nm \<in> set HIDDEN_TOOLS" for nm
    using hidden_tools_not_listed [OF h, where 'n = 'n] h hidden_tools_registered by blast
  have called: "callToolHandler rt templates env net nm args
           = (case callTool rt env net nm (if truthy rt args then args else JObj []) of
                (Inl e, events) \<Rightarrow>
                  (Inr \<lparr>content = [\<lparr>item_type = ''text'',
                                      item_text = ''Error: '' @ message e\<rparr>],
                        isError = Some True\<rparr>, events)
              | (Inr result, events) \<Rightarrow>
                  (case formatResult rt templates nm result of
                     Inr txt \<Rightarrow>
                       (Inr \<lparr>content = [\<lparr>item_type = ''text'', item_text = txt\<rparr>],
                             isError = None\<rparr>, events)
                   | Inl e \<Rightarrow>
                       (Inr \<lparr>content = [\<lparr>item_type = ''text'',
                                           item_text = ''Error: '' @ message e\<rparr>],
                             isError = Some True\<rparr>, events)))
       \<and> (env_or env ''PATTERNSTACK_API_KEY'' [] = [] \<longrightarrow>
            callToolHandler rt templates env net nm args
              = (Inr \<lparr>content = [\<lparr>item_type = ''text'',
                                   item_text = ''Error: '' @ API_KEY_NOT_SET_MESSAGE\<rparr>],
                      isError = Some True\<rparr>, []))
       \<and> (env_or env ''PATTERNSTACK_API_KEY'' [] \<noteq> [] \<longrightarrow>
            Fetch (upstream_request rt env nm (if truthy rt args then args else JObj []))
              \<in> set (snd (callToolHandler rt templates env net nm args)))"
    if reg: "nm \<in> set tool_names" for nm
    using callToolHandler_registered [OF reg, of env rt templates net args]
      callToolHandler_dispatch [OF reg, of rt templates env net args]
    by (intro conjI) blast+
  have visible: "\<exists>kvs. map_of (INPUT_SCHEMAS :: (string \<times> 'n jsval) list) nm = Some (JObj kvs)
              \<and> map_of kvs ''type'' = Some (JStr ''object'')
              \<and> \<lparr>tool_name = nm, tool_description = description c,
                  inputSchema = (JObj kvs :: 'n jsval)\<rparr> \<in> set listToolsHandler"
    if "(nm, c) \<in> set TOOL_CONFIG" and "nm \<notin> set HIDDEN_TOOLS" for nm c
    using visible_tools_listed [OF that, where 'n = 'n] .
  show ?thesis
  proof (intro conjI)
    show "\<forall>nm \<in> set HIDDEN_TOOLS.
            nm \<notin> set (map tool_name (listToolsHandler :: 'n tool_listing list))
          \<and> nm \<in> set tool_names"
      using hidden by blast
    show "map tool_name (listToolsHandler :: 'n tool_listing list)
            = filter (\<lambda>nm. nm \<notin> set HIDDEN_TOOLS) tool_names"
      by (rule listed_tool_names)
    show "\<forall>nm \<in> set tool_names.
         callToolHandler rt templates env net nm args
           = (case callTool rt env net nm (if truthy rt args then args else JObj []) of
                (Inl e, events) \<Rightarrow>
                  (Inr \<lparr>content = [\<lparr>item_type = ''text'',
                                      item_text = ''Error: '' @ message e\<rparr>],
                        isError = Some True\<rparr>, events)
              | (Inr result, events) \<Rightarrow>
                  (case formatResult rt templates nm result of
                     Inr txt \<Rightarrow>
                       (Inr \<lparr>content = [\<lparr>item_type = ''text'', item_text = txt\<rparr>],
                             isError = None\<rparr>, events)
                   | Inl e \<Rightarrow>
                       (Inr \<lparr>content = [\<lparr>item_type = ''text'',
                                           item_text = ''Error: '' @ message e\<rparr>],
                             isError = Some True\<rparr>, events)))
       \<and> (env_or env ''PATTERNSTACK_API_KEY'' [] = [] \<longrightarrow>
            callToolHandler rt templates env net nm args
              = (Inr \<lparr>content = [\<lparr>item_type = ''text'',
                                   item_text = ''Error: '' @ API_KEY_NOT_SET_MESSAGE\<rparr>],
                      isError = Some True\<rparr>, []))
       \<and> (env_or env ''PATTERNSTACK_API_KEY'' [] \<noteq> [] \<longrightarrow>
            Fetch (upstream_request rt env nm (if truthy rt args then args else JObj []))
              \<in> set (snd (callToolHandler rt templates env net nm args)))"
      by (rule ballI) (rule called)
    show "\<forall>(nm, c) \<in> set TOOL_CONFIG.
         nm \<notin> set HIDDEN_TOOLS \<longrightarrow>
           (\<exists>kvs. map_of (INPUT_SCHEMAS :: (string \<times> 'n jsval) list) nm = Some (JObj kvs)
              \<and> map_of kvs ''type'' = Some (JStr ''object'')
              \<and> \<lparr>tool_name = nm, tool_description = description c,
                  inputSchema = (JObj kvs :: 'n jsval)\<rparr> \<in> set listToolsHandler)"
      using visible by blast
  qed
qed

text \<open>
  The hidden tool \<^verbatim>\<open>migration.plan\<close> is not listed, but calling it with a key sends
  the request, and a successful upstream answer comes back formatted, without an error
  flag; the visible tool \<^verbatim>\<open>stack.defaults\<close> is listed with its description and with
  the schema of the schema table.
\<close>

theorem C6_hidden_tools_listing_and_calls_witness:
  "''migration.plan'' \<in> set HIDDEN_TOOLS
   \<and> ''migration.plan'' \<notin> set (map tool_name (listToolsHandler :: int tool_listing list))
   \<and> callToolHandler int_runtime heading_templates [''PATTERNSTACK_API_KEY'' \<mapsto> ''k1'']
        (\<lambda>request. Responded 200 ''OK''
           (Inr (JObj [(''success'', JBool True), (''result'', JObj [(''steps'', JArr [])])])))
        ''migration.plan'' (JObj [(''from'', JStr ''moment''), (''to'', JStr ''date-fns'')])
       = (Inr \<lparr>content = [\<lparr>item_type = ''text'', item_text = ''# migration.plan''\<rparr>],
               isError = None\<rparr>,
          [SetTimeout 30000,
           Fetch (upstream_request int_runtime [''PATTERNSTACK_API_KEY'' \<mapsto> ''k1'']
                    ''migration.plan''
                    (JObj [(''from'', JStr ''moment''), (''to'', JStr ''date-fns'')])),
           ClearTimeout])
   \<and> \<lparr>tool_name = ''stack.defaults'',
       tool_description = ''Get canonical/default packages for a framework'',
       inputSchema =
         (JObj
            [(''type'', JStr ''object''),
             (''properties'', JObj
                [(''framework'', JObj
                    [(''type'', JStr ''string''),
                     (''description'', JStr ''Framework to get defaults for'')]),
                 (''strictMode'', JObj
                    [(''type'', JStr ''boolean''),
                     (''description'', JStr ''Only return required packages'')]),
                 (''categories'', JObj
                    [(''type'', JStr ''array''),
                     (''items'', JObj [(''type'', JStr ''string'')]),
                     (''description'', JStr ''Filter by categories'')])]),
             (''required'', JArr [JStr ''framework''])] :: int jsval)\<rparr>
       \<in> set listToolsHandler"
proof -
  let ?env = "[''PATTERNSTACK_API_KEY'' \<mapsto> ''k1'']"
  let ?args = "JObj [(''from'', JStr ''moment''), (''to'', JStr ''date-fns'')] :: int jsval"
  let ?net = "\<lambda>request::http_request. (Responded 200 ''OK''
           (Inr (JObj [(''success'', JBool True), (''result'', JObj [(''steps'', JArr [])])]))
             :: int fetch_result)"
  note c6 = C6_hidden_tools_listing_and_calls [where 'n = int and env = ?env
      and rt = int_runtime and templates = heading_templates and net = ?net and args = ?args]
  have h: "''migration.plan'' \<in> set HIDDEN_TOOLS"
    by (simp add: HIDDEN_TOOLS_def)
  have v: "(''stack.defaults'',
            \<lparr>weight = 1, timeout = 5000, minTier = ''free'',
             description = ''Get canonical/default packages for a framework''\<rparr>)
             \<in> set TOOL_CONFIG"
    by (simp add: TOOL_CONFIG_def)
  have nh: "''stack.defaults'' \<notin> set HIDDEN_TOOLS"
    by (simp add: HIDDEN_TOOLS_def)
  from c6 h have a: "''migration.plan'' \<notin> set (map tool_name (listToolsHandler :: int tool_listing list))
      \<and> ''migration.plan'' \<in> set tool_names"
    by blast
  have ct: "callTool int_runtime ?env ?net ''migration.plan''
              (if truthy int_runtime ?args then ?args else JObj [])
            = (Inr (JObj [(''steps'', JArr [])]),
               [SetTimeout 30000,
                Fetch (upstream_request int_runtime ?env ''migration.plan'' ?args),
                ClearTimeout])"
    by (simp add: callTool_def env_or_def tool_lookup_def TOOL_CONFIG_def handle_response_def
          response_ok_def)
  have fr: "formatResult int_runtime heading_templates ''migration.plan''
              (JObj [(''steps'', JArr [])]) = Inr ''# migration.plan''"
    by (simp add: formatResult_def bespoke_tools_def heading_templates_def)
  from c6 a
  have "callToolHandler int_runtime heading_templates ?env ?net ''migration.plan'' ?args
           = (case callTool int_runtime ?env ?net ''migration.plan''
                     (if truthy int_runtime ?args then ?args else JObj []) of
                (Inl e, events) \<Rightarrow>
                  (Inr \<lparr>content = [\<lparr>item_type = ''text'',
                                      item_text = ''Error: '' @ message e\<rparr>],
                        isError = Some True\<rparr>, events)
              | (Inr result, events) \<Rightarrow>
                  (case formatResult int_runtime heading_templates ''migration.plan'' result of
                     Inr txt \<Rightarrow>
                       (Inr \<lparr>content = [\<lparr>item_type = ''text'', item_text = txt\<rparr>],
                             isError = None\<rparr>, events)
                   | Inl e \<Rightarrow>
                       (Inr \<lparr>content = [\<lparr>item_type = ''text'',
                                           item_text = ''Error: '' @ message e\<rparr>],
                             isError = Some True\<rparr>, events)))"
    by blast
  then have b: "callToolHandler int_runtime heading_templates ?env ?net ''migration.plan'' ?args
       = (Inr \<lparr>content = [\<lparr>item_type = ''text'', item_text = ''# migration.plan''\<rparr>],
               isError = None\<rparr>,
          [SetTimeout 30000,
           Fetch (upstream_request int_runtime ?env ''migration.plan'' ?args),
           ClearTimeout])"
    by (simp only: ct fr prod.case sum.case)
  have sch: "map_of (INPUT_SCHEMAS :: (string \<times> int jsval) list) ''stack.defaults''
      = Some (JObj
            [(''type'', JStr ''object''),
             (''properties'', JObj
                [(''framework'', JObj
                    [(''type'', JStr ''string''),
                     (''description'', JStr ''Framework to get defaults for'')]),
                 (''strictMode'', JObj
                    [(''type'', JStr ''boolean''),
                     (''description'', JStr ''Only return required packages'')]),
                 (''categories'', JObj
                    [(''type'', JStr ''array''),
                     (''items'', JObj [(''type'', JStr ''string'')]),
                     (''description'', JStr ''Filter by categories'')])]),
             (''required'', JArr [JStr ''framework''])])"
    by (simp add: INPUT_SCHEMAS_def)
  from c6 v nh
  have "\<exists>kvs. map_of (INPUT_SCHEMAS :: (string \<times> int jsval) list) ''stack.defaults''
                 = Some (JObj kvs)
          \<and> map_of kvs ''type'' = Some (JStr ''object'')
          \<and> \<lparr>tool_name = ''stack.defaults'',
              tool_description = ''Get canonical/default packages for a framework'',
              inputSchema = (JObj kvs :: int jsval)\<rparr> \<in> set listToolsHandler"
    by fastforce
  then have c: "\<lparr>tool_name = ''stack.defaults'',
       tool_description = ''Get canonical/default packages for a framework'',
       inputSchema =
         (JObj
            [(''type'', JStr ''object''),
             (''properties'', JObj
                [(''framework'', JObj
                    [(''type'', JStr ''string''),
                     (''description'', JStr ''Framework to get defaults for'')]),
                 (''strictMode'', JObj
                    [(''type'', JStr ''boolean''),
                     (''description'', JStr ''Only return required packages'')]),
                 (''categories'', JObj
                    [(''type'', JStr ''array''),
                     (''items'', JObj [(''type'', JStr ''string'')]),
                     (''description'', JStr ''Filter by categories'')])]),
             (''required'', JArr [JStr ''framework''])] :: int jsval)\<rparr>
       \<in> set listToolsHandler"
    using sch by auto
  show ?thesis using h a b c by blast
qed

section \<open>The formatter on a null result\<close>

text \<open>
  Claim C7 says that for a tool name without a bespoke template the formatter returns
  the generic rendering for every result, \<^verbatim>\<open>null\<close> included, without throwing. On the
  code, the result \<^verbatim>\<open>null\<close> for the registered tool \<^verbatim>\<open>stack.defaults\<close>, which has no
  case of its own, makes the formatter throw a TypeError: after the \<^verbatim>\<open>switch\<close> it reads
  \<^verbatim>\<open>data._agi\<close> of \<^verbatim>\<open>null\<close>.
\<close>

theorem C7_null_result_throws:
  "formatResult rt templates ''stack.defaults'' JNull
     = Inl (new_TypeError (''Cannot read properties of null (reading ''
                             @ [CHR 0x27] @ ''_agi'' @ [CHR 0x27] @ '')''))
   \<and> ''stack.defaults'' \<in> set tool_names
   \<and> ''stack.defaults'' \<notin> set bespoke_tools"
  by (simp add: formatResult_def bespoke_tools_def tool_names_eval)

section \<open>The resources\<close>

lemma config_doc_configured:
  "k \<noteq> [] \<Longrightarrow>
   getConfigDoc (load_resources (env(''PATTERNSTACK_API_KEY'' \<mapsto> k)))
     = ''# PatternStack Configuration\<newline>\<newline>API Key: '' @ ''Configured''
         @ ''\<newline>API URL: '' @ env_or env ''PATTERNSTACK_API_URL'' ''https://patternstack.ai''
         @ config_tail"
  by (simp add: getConfigDoc_def load_resources_def key_status_def env_or_def)

text \<open>
  Claim C2 says that the config document reports the presence of the credential as it
  is when the resource is read. On the code, the key is looked at once, when resources.ts
  is loaded: a process started without the key, in which the key is set afterwards (by
  an assignment to the environment, or by \<^verbatim>\<open>dotenv.config()\<close>, which index.ts runs
  after its imports), still reads \<^verbatim>\<open>API Key: Not set\<close>, while a tool call made in the
  same state finds the key and goes to the upstream.
\<close>

theorem C2_config_doc_ignores_later_environment:
  "handle_ReadResource (set_env ''PATTERNSTACK_API_KEY'' ''sk_live_1'' (startup Map.empty))
       ''patternstack://config''
     = Inr [\<lparr>c_uri = ''patternstack://config'', c_mimeType = ''text/markdown'',
             c_text = ''# PatternStack Configuration\<newline>\<newline>API Key: Not set\<newline>API URL: https://patternstack.ai''
                        @ config_tail\<rparr>]
   \<and> process_env (set_env ''PATTERNSTACK_API_KEY'' ''sk_live_1'' (startup Map.empty))
       ''PATTERNSTACK_API_KEY'' = Some ''sk_live_1''
   \<and> handle_ReadResource (index_main Map.empty [''PATTERNSTACK_API_KEY'' \<mapsto> ''sk_live_1''])
       ''patternstack://config''
     = Inr [\<lparr>c_uri = ''patternstack://config'', c_mimeType = ''text/markdown'',
             c_text = ''# PatternStack Configuration\<newline>\<newline>API Key: Not set\<newline>API URL: https://patternstack.ai''
                        @ config_tail\<rparr>]
   \<and> process_env (index_main Map.empty [''PATTERNSTACK_API_KEY'' \<mapsto> ''sk_live_1''])
       ''PATTERNSTACK_API_KEY'' = Some ''sk_live_1''
   \<and> fst (handle_CallTool int_runtime heading_templates
             (\<lambda>request. Rejected (new_Error ''fetch failed''))
             (index_main Map.empty [''PATTERNSTACK_API_KEY'' \<mapsto> ''sk_live_1''])
             ''stack.defaults'' (JObj []))
       = Inr \<lparr>content = [\<lparr>item_type = ''text'', item_text = ''Error: fetch failed''\<rparr>],
              isError = Some True\<rparr>"
  by (simp add: handle_ReadResource_def set_env_def startup_def index_main_def dotenv_config_def
        readResourceHandler_def getResource_def getConfigDoc_def load_resources_def
        key_status_def env_or_def handle_CallTool_def callToolHandler_def tool_names_eval
        callTool_def tool_lookup_def TOOL_CONFIG_def new_Error_def)

text \<open>
  Claim C8, as stated, says that the config text never contains the credential value and
  is the same for any two credentials that are set. A credential that is a piece of the
  fixed text, such as \<^verbatim>\<open>Configured\<close>, does occur in the document, and so does one
  that is part of the configured API URL, which the document prints; and a credential set
  to the empty string reads as \<^verbatim>\<open>Not set\<close>, unlike any other value.
\<close>

theorem C8_credential_value_can_occur:
  "sublist ''Configured''
     (getConfigDoc (load_resources [''PATTERNSTACK_API_KEY'' \<mapsto> ''Configured'']))
   \<and> sublist ''sk_live_1''
       (getConfigDoc (load_resources
          [''PATTERNSTACK_API_KEY'' \<mapsto> ''sk_live_1'',
           ''PATTERNSTACK_API_URL'' \<mapsto> ''https://proxy.example/sk_live_1'']))
   \<and> getConfigDoc (load_resources [''PATTERNSTACK_API_KEY'' \<mapsto> []])
       \<noteq> getConfigDoc (load_resources [''PATTERNSTACK_API_KEY'' \<mapsto> ''sk_live_1''])"
proof (intro conjI)
  have "getConfigDoc (load_resources (Map.empty(''PATTERNSTACK_API_KEY'' \<mapsto> ''Configured'')))
     = ''# PatternStack Configuration\<newline>\<newline>API Key: '' @ ''Configured''
         @ (''\<newline>API URL: ''
              @ env_or Map.empty ''PATTERNSTACK_API_URL'' ''https://patternstack.ai''
              @ config_tail)"
    using config_doc_configured [of "''Configured''" Map.empty] by simp
  then show "sublist ''Configured''
     (getConfigDoc (load_resources [''PATTERNSTACK_API_KEY'' \<mapsto> ''Configured'']))"
    using sublist_appendI by metis
  have "getConfigDoc (load_resources
          [''PATTERNSTACK_API_KEY'' \<mapsto> ''sk_live_1'',
           ''PATTERNSTACK_API_URL'' \<mapsto> ''https://proxy.example/sk_live_1''])
     = (''# PatternStack Configuration\<newline>\<newline>API Key: Configured\<newline>API URL: ''
          @ ''https://proxy.example/'') @ ''sk_live_1'' @ config_tail"
    by (simp add: getConfigDoc_def load_resources_def key_status_def env_or_def)
  then show "sublist ''sk_live_1''
       (getConfigDoc (load_resources
          [''PATTERNSTACK_API_KEY'' \<mapsto> ''sk_live_1'',
           ''PATTERNSTACK_API_URL'' \<mapsto> ''https://proxy.example/sk_live_1'']))"
    using sublist_appendI by metis
  show "getConfigDoc (load_resources [''PATTERNSTACK_API_KEY'' \<mapsto> []])
       \<noteq> getConfigDoc (load_resources [''PATTERNSTACK_API_KEY'' \<mapsto> ''sk_live_1''])"
    by (simp add: getConfigDoc_def load_resources_def key_status_def)
qed

lemma config_doc_not_set:
  "getConfigDoc (load_resources (env(''PATTERNSTACK_API_KEY'' \<mapsto> [])))
     = ''# PatternStack Configuration\<newline>\<newline>API Key: Not set\<newline>API URL: ''
         @ env_or env ''PATTERNSTACK_API_URL'' ''https://patternstack.ai'' @ config_tail"
  "getConfigDoc (load_resources (env(''PATTERNSTACK_API_KEY'' := None)))
     = ''# PatternStack Configuration\<newline>\<newline>API Key: Not set\<newline>API URL: ''
         @ env_or env ''PATTERNSTACK_API_URL'' ''https://patternstack.ai'' @ config_tail"
  by (simp_all add: getConfigDoc_def load_resources_def key_status_def env_or_def)

text \<open>
  Claim C8, amended: the config text depends on the credential only through whether it
  is non-empty. For any two non-empty credential values, in the same environment
  otherwise, the config text is identical, and so is the whole answer of a resource read:
  the text is the fixed wording with \<^verbatim>\<open>API Key: Configured\<close> and the API URL, in
  which the credential value is not used. For an empty credential and for an absent one
  the text is the same wording with \<^verbatim>\<open>API Key: Not set\<close>. So a credential value
  occurs in the text only if it would occur there under any other non-empty credential
  as well, that is, only if that string is part of the wording or of the URL.
\<close>

theorem C8_config_doc_depends_on_key_presence_only:
  assumes "k1 \<noteq> []" and "k2 \<noteq> []"
  shows "getConfigDoc (load_resources (env(''PATTERNSTACK_API_KEY'' \<mapsto> k1)))
           = getConfigDoc (load_resources (env(''PATTERNSTACK_API_KEY'' \<mapsto> k2)))
       \<and> getConfigDoc (load_resources (env(''PATTERNSTACK_API_KEY'' \<mapsto> k1)))
           = ''# PatternStack Configuration\<newline>\<newline>API Key: Configured\<newline>API URL: ''
               @ env_or env ''PATTERNSTACK_API_URL'' ''https://patternstack.ai'' @ config_tail
       \<and> getConfigDoc (load_resources (env(''PATTERNSTACK_API_KEY'' \<mapsto> [])))
           = ''# PatternStack Configuration\<newline>\<newline>API Key: Not set\<newline>API URL: ''
               @ env_or env ''PATTERNSTACK_API_URL'' ''https://patternstack.ai'' @ config_tail
       \<and> getConfigDoc (load_resources (env(''PATTERNSTACK_API_KEY'' := None)))
           = getConfigDoc (load_resources (env(''PATTERNSTACK_API_KEY'' \<mapsto> [])))
       \<and> (sublist k1 (getConfigDoc (load_resources (env(''PATTERNSTACK_API_KEY'' \<mapsto> k1))))
            \<longrightarrow> sublist k1 (getConfigDoc (load_resources (env(''PATTERNSTACK_API_KEY'' \<mapsto> k2)))))
       \<and> handle_ReadResource (startup (env(''PATTERNSTACK_API_KEY'' \<mapsto> k1))) u
           = handle_ReadResource (startup (env(''PATTERNSTACK_API_KEY'' \<mapsto> k2))) u"
  using config_doc_configured [OF assms(1), of env] config_doc_configured [OF assms(2), of env]
    config_doc_not_set [of env]
  by (simp add: handle_ReadResource_def startup_def readResourceHandler_def getResource_def)

text \<open>
  Two different keys give the same document, with \<^verbatim>\<open>Configured\<close>; the empty key and
  no key give the document with \<^verbatim>\<open>Not set\<close>.
\<close>

theorem C8_config_doc_depends_on_key_presence_only_witness:
  "''sk_live_1'' \<noteq> ''sk_test_2''
   \<and> getConfigDoc (load_resources [''PATTERNSTACK_API_KEY'' \<mapsto> ''sk_live_1''])
       = getConfigDoc (load_resources [''PATTERNSTACK_API_KEY'' \<mapsto> ''sk_test_2''])
   \<and> getConfigDoc (load_resources [''PATTERNSTACK_API_KEY'' \<mapsto> ''sk_live_1''])
       = ''# PatternStack Configuration\<newline>\<newline>API Key: Configured\<newline>API URL: https://patternstack.ai''
           @ config_tail
   \<and> getConfigDoc (load_resources [''PATTERNSTACK_API_KEY'' \<mapsto> []])
       = ''# PatternStack Configuration\<newline>\<newline>API Key: Not set\<newline>API URL: https://patternstack.ai''
           @ config_tail
   \<and> getConfigDoc (load_resources Map.empty)
       = ''# PatternStack Configuration\<newline>\<newline>API Key: Not set\<newline>API URL: https://patternstack.ai''
           @ config_tail"
proof -
  have n1: "''sk_live_1'' \<noteq> []" and n2: "''sk_test_2'' \<noteq> []"
    by simp_all
  note w = C8_config_doc_depends_on_key_presence_only [OF n1 n2, where env = Map.empty
      and u = "''patternstack://config''"]
  have url: "env_or Map.empty ''PATTERNSTACK_API_URL'' ''https://patternstack.ai''
               = ''https://patternstack.ai''"
    by (simp add: env_or_def)
  from w have a: "getConfigDoc (load_resources [''PATTERNSTACK_API_KEY'' \<mapsto> ''sk_live_1''])
       = getConfigDoc (load_resources [''PATTERNSTACK_API_KEY'' \<mapsto> ''sk_test_2''])"
    by (rule conjunct1)
  from w have b: "getConfigDoc (load_resources [''PATTERNSTACK_API_KEY'' \<mapsto> ''sk_live_1''])
       = ''# PatternStack Configuration\<newline>\<newline>API Key: Configured\<newline>API URL: ''
           @ env_or Map.empty ''PATTERNSTACK_API_URL'' ''https://patternstack.ai'' @ config_tail"
    by (rule conjunct1 [OF conjunct2])
  from w have c: "getConfigDoc (load_resources [''PATTERNSTACK_API_KEY'' \<mapsto> []])
       = ''# PatternStack Configuration\<newline>\<newline>API Key: Not set\<newline>API URL: ''
           @ env_or Map.empty ''PATTERNSTACK_API_URL'' ''https://patternstack.ai'' @ config_tail"
    by (rule conjunct1 [OF conjunct2 [OF conjunct2]])
  from w have d: "getConfigDoc (load_resources (Map.empty(''PATTERNSTACK_API_KEY'' := None)))
       = getConfigDoc (load_resources [''PATTERNSTACK_API_KEY'' \<mapsto> []])"
    by (rule conjunct1 [OF conjunct2 [OF conjunct2 [OF conjunct2]]])
  have e: "Map.empty(''PATTERNSTACK_API_KEY'' := None) = (Map.empty :: environment)"
    by simp
  show ?thesis
  proof (intro conjI)
    show "''sk_live_1'' \<noteq> ''sk_test_2''" by simp
    show "getConfigDoc (load_resources [''PATTERNSTACK_API_KEY'' \<mapsto> ''sk_live_1''])
       = getConfigDoc (load_resources [''PATTERNSTACK_API_KEY'' \<mapsto> ''sk_test_2''])"
      by (rule a)
    show "getConfigDoc (load_resources [''PATTERNSTACK_API_KEY'' \<mapsto> ''sk_live_1''])
       = ''# PatternStack Configuration\<newline>\<newline>API Key: Configured\<newline>API URL: https://patternstack.ai''
           @ config_tail"
      unfolding b url by simp
    show "getConfigDoc (load_resources [''PATTERNSTACK_API_KEY'' \<mapsto> []])
       = ''# PatternStack Configuration\<newline>\<newline>API Key: Not set\<newline>API URL: https://patternstack.ai''
           @ config_tail"
      unfolding c url by simp
    show "getConfigDoc (load_resources Map.empty)
       = ''# PatternStack Configuration\<newline>\<newline>API Key: Not set\<newline>API URL: https://patternstack.ai''
           @ config_tail"
      using d c unfolding e url by simp
  qed
qed

text \<open>
  Claim C10: for every known resource URI (the URIs of the catalog, which are exactly
  the ones \<^verbatim>\<open>getResource\<close> answers), the read-resource handler returns one contents
  entry whose \<^verbatim>\<open>uri\<close> is the requested URI, whose \<^verbatim>\<open>mimeType\<close> is
  \<^verbatim>\<open>text/markdown\<close> and whose text is the document; this includes the config resource,
  which the resource listing declares with \<^verbatim>\<open>text/plain\<close>.
\<close>

theorem C10_read_resource_is_markdown:
  "(\<forall>r \<in> set RESOURCES.
      \<exists>txt. getResource m (uri r) = Inr txt
          \<and> readResourceHandler m (uri r)
               = Inr [\<lparr>c_uri = uri r, c_mimeType = ''text/markdown'', c_text = txt\<rparr>])
   \<and> (\<forall>u. (\<exists>txt. getResource m u = Inr txt) \<longleftrightarrow> u \<in> set (map uri RESOURCES))
   \<and> \<lparr>uri = ''patternstack://config'', res_name = ''Configuration'',
       res_description = ''Current configuration and API key status'',
       mimeType = ''text/plain''\<rparr> \<in> set listResourcesHandler"
  by (simp add: RESOURCES_def listResourcesHandler_def readResourceHandler_def getResource_def)

text \<open>The config resource: listed as plain text, read as markdown.\<close>

theorem C10_read_resource_is_markdown_witness:
  "\<lparr>uri = ''patternstack://config'', res_name = ''Configuration'',
     res_description = ''Current configuration and API key status'',
     mimeType = ''text/plain''\<rparr> \<in> set RESOURCES
   \<and> (\<exists>txt. readResourceHandler (load_resources Map.empty) ''patternstack://config''
           = Inr [\<lparr>c_uri = ''patternstack://config'', c_mimeType = ''text/markdown'',
                   c_text = txt\<rparr>])"
proof -
  have r: "\<lparr>uri = ''patternstack://config'', res_name = ''Configuration'',
     res_description = ''Current configuration and API key status'',
     mimeType = ''text/plain''\<rparr> \<in> set RESOURCES"
    by (simp add: RESOURCES_def)
  show ?thesis
    using r C10_read_resource_is_markdown [of "load_resources Map.empty"]
    by fastforce
qed

end
